theory Spec2Isabelle
  imports Main "HOL-Library.AList"
begin

section \<open>JavaScript values\<close>

text \<open>
  The module \<open>lib/google.js\<close> is dynamically typed: a receipt, a response body or a parsed
  payload may be any JSON-like value. Strings are sequences of code units below 256; numbers
  are the integers that JavaScript prints in full decimal notation. An object is the list of
  its own properties in enumeration order (\<open>Object.keys\<close>); an array carries its elements
  and the named properties assigned to it.
\<close>

datatype jserror = Error string | TypeError string | SyntaxError string

fun message :: "jserror \<Rightarrow> string" where
  "message (Error m) = m"
| "message (TypeError m) = m"
| "message (SyntaxError m) = m"

datatype jsval =
    JUndefined
  | JNull
  | JBool bool
  | JNum int
  | JStr string
  | JArr "jsval list" "(string \<times> jsval) list"
  | JObj "(string \<times> jsval) list"

definition bindE :: "jserror + 'a \<Rightarrow> ('a \<Rightarrow> jserror + 'b) \<Rightarrow> jserror + 'b" where
  "bindE m f = (case m of Inl e \<Rightarrow> Inl e | Inr x \<Rightarrow> f x)"

fun truthy :: "jsval \<Rightarrow> bool" where
  "truthy JUndefined = False"
| "truthy JNull = False"
| "truthy (JBool b) = b"
| "truthy (JNum n) = (n \<noteq> 0)"
| "truthy (JStr s) = (s \<noteq> [])"
| "truthy (JArr xs ps) = True"
| "truthy (JObj ps) = True"

fun typeof :: "jsval \<Rightarrow> string" where
  "typeof JUndefined = ''undefined''"
| "typeof JNull = ''object''"
| "typeof (JBool b) = ''boolean''"
| "typeof (JNum n) = ''number''"
| "typeof (JStr s) = ''string''"
| "typeof (JArr xs ps) = ''object''"
| "typeof (JObj ps) = ''object''"

text \<open>\<open>a || b\<close>\<close>

definition or_js :: "jsval \<Rightarrow> jsval \<Rightarrow> jsval" where
  "or_js a b = (if truthy a then a else b)"

text \<open>\<open>arr.join(sep)\<close> on the already converted elements.\<close>

fun join :: "string \<Rightarrow> string list \<Rightarrow> string" where
  "join sep [] = []"
| "join sep [x] = x"
| "join sep (x # y # ys) = x @ sep @ join sep (y # ys)"

text \<open>
  \<open>Number.prototype.toString\<close> on an integer: an optional minus sign and the decimal
  digits, most significant first.
\<close>

fun decimalDigits :: "nat \<Rightarrow> nat list" where
  "decimalDigits n = (if n < 10 then [n] else decimalDigits (n div 10) @ [n mod 10])"

declare decimalDigits.simps [simp del]

definition numberToString :: "int \<Rightarrow> string" where
  "numberToString i =
     (if i < 0 then [CHR ''-''] else [])
       @ map (\<lambda>d. ''0123456789'' ! d) (decimalDigits (nat (abs i)))"

text \<open>
  \<open>String(v)\<close>, which is also what \<open>'text' + v\<close> appends: an array joins its elements
  with commas (\<open>null\<close> and \<open>undefined\<close> elements as the empty string), any other object is
  \<open>[object Object]\<close>.
\<close>

fun toString :: "jsval \<Rightarrow> string" where
  "toString JUndefined = ''undefined''"
| "toString JNull = ''null''"
| "toString (JBool b) = (if b then ''true'' else ''false'')"
| "toString (JNum n) = numberToString n"
| "toString (JStr s) = s"
| "toString (JArr xs ps) =
     join '','' (map (\<lambda>x. if x = JUndefined \<or> x = JNull then [] else toString x) xs)"
| "toString (JObj ps) = ''[object Object]''"

text \<open>\<open>new Error(v)\<close>: the message is \<open>String(v)\<close>, and empty when \<open>v\<close> is undefined.\<close>

definition newError :: "jsval \<Rightarrow> jserror" where
  "newError v = Error (if v = JUndefined then [] else toString v)"

text \<open>
  Property read \<open>v.k\<close>, property write \<open>v.k = x\<close> and \<open>k in v\<close>, for the property names
  this module uses (none of them is an array index, \<open>length\<close> or a member of a built-in
  prototype). Reading or writing a property of \<open>null\<close> or \<open>undefined\<close> throws; a write to
  another primitive is ignored (the module is not in strict mode); \<open>in\<close> throws on every
  primitive.
\<close>

fun getProp :: "jsval \<Rightarrow> string \<Rightarrow> jserror + jsval" where
  "getProp JUndefined k = Inl (TypeError (''Cannot read property '' @ k @ '' of undefined''))"
| "getProp JNull k = Inl (TypeError (''Cannot read property '' @ k @ '' of null''))"
| "getProp (JArr xs ps) k = Inr (case map_of ps k of None \<Rightarrow> JUndefined | Some v \<Rightarrow> v)"
| "getProp (JObj ps) k = Inr (case map_of ps k of None \<Rightarrow> JUndefined | Some v \<Rightarrow> v)"
| "getProp v k = Inr JUndefined"

fun setProp :: "jsval \<Rightarrow> string \<Rightarrow> jsval \<Rightarrow> jserror + jsval" where
  "setProp JUndefined k x = Inl (TypeError (''Cannot set property '' @ k @ '' of undefined''))"
| "setProp JNull k x = Inl (TypeError (''Cannot set property '' @ k @ '' of null''))"
| "setProp (JArr xs ps) k x = Inr (JArr xs (AList.update k x ps))"
| "setProp (JObj ps) k x = Inr (JObj (AList.update k x ps))"
| "setProp v k x = Inr v"

fun hasProp :: "string \<Rightarrow> jsval \<Rightarrow> jserror + bool" where
  "hasProp k (JArr xs ps) = Inr (k \<in> fst ` set ps)"
| "hasProp k (JObj ps) = Inr (k \<in> fst ` set ps)"
| "hasProp k v = Inl (TypeError (''Cannot use in operator to search for '' @ k @ '' in '' @ toString v))"

section \<open>JSON.stringify\<close>

definition hex2 :: "nat \<Rightarrow> string" where
  "hex2 n = [''0123456789abcdef'' ! (n div 16 mod 16), ''0123456789abcdef'' ! (n mod 16)]"

text \<open>One character of a quoted JSON string, as \<open>JSON.stringify\<close> writes it.\<close>

definition quoteChar :: "char \<Rightarrow> string" where
  "quoteChar c =
     (if c = CHR 0x22 then [CHR 0x5C, CHR 0x22]
      else if c = CHR 0x5C then [CHR 0x5C, CHR 0x5C]
      else if c = CHR 0x08 then [CHR 0x5C, CHR ''b'']
      else if c = CHR 0x0C then [CHR 0x5C, CHR ''f'']
      else if c = CHR 0x0A then [CHR 0x5C, CHR ''n'']
      else if c = CHR 0x0D then [CHR 0x5C, CHR ''r'']
      else if c = CHR 0x09 then [CHR 0x5C, CHR ''t'']
      else if of_char c < (32::nat) then [CHR 0x5C, CHR ''u'', CHR ''0'', CHR ''0''] @ hex2 (of_char c)
      else [c])"

definition quote :: "string \<Rightarrow> string" where
  "quote s = [CHR 0x22] @ concat (map quoteChar s) @ [CHR 0x22]"

text \<open>
  \<open>JSON.stringify(v)\<close> without indentation; \<open>None\<close> is the result \<open>undefined\<close>. The
  properties of an object are written in enumeration order, those whose value is
  \<open>undefined\<close> are left out, and an \<open>undefined\<close> array element is written \<open>null\<close>.
\<close>

fun stringify :: "jsval \<Rightarrow> string option" where
  "stringify JUndefined = None"
| "stringify JNull = Some ''null''"
| "stringify (JBool b) = Some (if b then ''true'' else ''false'')"
| "stringify (JNum n) = Some (numberToString n)"
| "stringify (JStr s) = Some (quote s)"
| "stringify (JArr xs ps) =
     Some (''['' @ join '','' (map (\<lambda>x. case stringify x of None \<Rightarrow> ''null'' | Some s \<Rightarrow> s) xs) @ '']'')"
| "stringify (JObj ps) =
     Some (''{'' @ join '',''
       (concat (map (\<lambda>p. case stringify (snd p) of None \<Rightarrow> [] | Some s \<Rightarrow> [quote (fst p) @ '':'' @ s]) ps))
       @ ''}'')"

section \<open>Collaborators outside the module\<close>

text \<open>
  The module reaches the outside world through \<open>crypto\<close> (signature verification),
  \<open>JSON.parse\<close>, \<open>request\<close> (HTTP), \<open>fs.readFile\<close> and \<open>process.env\<close>. They are
  parameters of the model. \<open>request\<close> answers a request given everything that happened
  before it in the same call; \<open>NoReply\<close> is a request whose callback is never invoked.
\<close>

datatype http_request =
    GET string string
  | POST string "(string \<times> jsval) list"

datatype reply = Reply "jserror option" jsval | NoReply

datatype event =
    KeyRead string
  | Verify "string option"
  | Lookup http_request
  | Refresh http_request

record env =
  crypto_verify :: "string \<Rightarrow> string \<Rightarrow> jsval \<Rightarrow> jserror + bool"
  JSON_parse :: "string \<Rightarrow> jserror + jsval"
  request :: "event list \<Rightarrow> http_request \<Rightarrow> reply"

record host =
  readFile :: "string \<Rightarrow> string option"
  process_env :: "string \<Rightarrow> string option"

text \<open>
  Modelled from the spec: \<open>constants.VALIDATION.SUCCESS\<close> (the file \<open>../constants\<close> is not
  among the sources); the spec writes the status \<open>'SUCCESS'\<close>.
\<close>

definition VALIDATION_SUCCESS :: jsval where
  "VALIDATION_SUCCESS = JStr ''SUCCESS''"

text \<open>
  Modelled from the spec: \<open>constants.VALIDATION.FAILURE\<close> (the file \<open>../constants\<close> is not
  among the sources); the spec writes the status \<open>'FAILURE'\<close>.
\<close>

definition VALIDATION_FAILURE :: jsval where
  "VALIDATION_FAILURE = JStr ''FAILURE''"

text \<open>
  Modelled from the spec: \<open>constants.SERVICES.GOOGLE\<close> (the file \<open>../constants\<close> is not
  among the sources); the spec writes the service \<open>'GOOGLE'\<close>.
\<close>

definition SERVICES_GOOGLE :: jsval where
  "SERVICES_GOOGLE = JStr ''GOOGLE''"

section \<open>Module state\<close>

text \<open>
  The module-level variables. Configuration values, key paths and keys are strings; the
  access token becomes whatever the token endpoint sends, so the token map holds values.
  An absent property is \<open>None\<close> (\<open>undefined\<close>).
\<close>

record module =
  config :: "(string \<times> string) list option"
  keyPathMap :: "(string \<times> string) list"
  publicKeyMap :: "(string \<times> string) list"
  googleTokenMap :: "(string \<times> jsval) list"
  checkPurchaseState :: bool

definition sandboxPkey :: string where
  "sandboxPkey = ''iap-sandbox''"

definition livePkey :: string where
  "livePkey = ''iap-live''"

definition ENV_PUBLICKEY_SANDBOX :: string where
  "ENV_PUBLICKEY_SANDBOX = ''GOOGLE_IAB_PUBLICKEY_SANDBOX''"

definition ENV_PUBLICKEY_LIVE :: string where
  "ENV_PUBLICKEY_LIVE = ''GOOGLE_IAB_PUBLICKEY_LIVE''"

text \<open>The state after \<open>reset\<close>, which is also the state at load time.\<close>

definition reset :: module where
  "reset = \<lparr>config = None, keyPathMap = [], publicKeyMap = [], googleTokenMap = [],
            checkPurchaseState = False\<rparr>"

text \<open>Truthiness of a string-valued property that may be absent.\<close>

definition present :: "string option \<Rightarrow> bool" where
  "present v = (case v of None \<Rightarrow> False | Some s \<Rightarrow> s \<noteq> [])"

text \<open>\<open>config && config.k\<close>\<close>

definition cfg :: "module \<Rightarrow> string \<Rightarrow> string option" where
  "cfg st k = (case config st of None \<Rightarrow> None | Some c \<Rightarrow> map_of c k)"

definition token :: "module \<Rightarrow> string \<Rightarrow> jsval" where
  "token st k = (case map_of (googleTokenMap st) k of None \<Rightarrow> JUndefined | Some v \<Rightarrow> v)"

definition isValidConfigKey :: "string \<Rightarrow> bool" where
  "isValidConfigKey key = (take 6 key = ''google'')"

definition str_or_undefined :: "string option \<Rightarrow> string" where
  "str_or_undefined v = (case v of None \<Rightarrow> ''undefined'' | Some s \<Rightarrow> s)"

definition readConfig :: "module \<Rightarrow> (string \<times> string) list option \<Rightarrow> module" where
  "readConfig st configIn =
     (case configIn of
        None \<Rightarrow> st
      | Some cin \<Rightarrow>
          let valid = filter (\<lambda>p. isValidConfigKey (fst p)) cin;
              c0 = fold (\<lambda>p c. AList.update (fst p) (snd p) c) valid [];
              configValueSet = (valid \<noteq> []);
              c1 = (if present (map_of cin ''publicKeyStrSandbox'')
                    then AList.update ''googlePublicKeyStrSandbox'' (the (map_of cin ''publicKeyStrSandbox'')) c0
                    else c0);
              c2 = (if present (map_of cin ''publicKeyStrLive'')
                    then AList.update ''googlePublicKeyStrLive'' (the (map_of cin ''publicKeyStrLive'')) c1
                    else c1)
          in if \<not> configValueSet then st\<lparr>config := None\<rparr>
             else
               let path = str_or_undefined (map_of c2 ''googlePublicKeyPath'');
                   st1 = st\<lparr>config := Some c2,
                            keyPathMap := AList.update ''live'' (path @ livePkey)
                                           (AList.update ''sandbox'' (path @ sandboxPkey) (keyPathMap st))\<rparr>
               in if present (map_of c2 ''googleAccToken'') \<and> present (map_of c2 ''googleRefToken'')
                     \<and> present (map_of c2 ''googleClientID'') \<and> present (map_of c2 ''googleClientSecret'')
                  then st1\<lparr>googleTokenMap :=
                             AList.update ''clientSecret'' (JStr (the (map_of c2 ''googleClientSecret'')))
                              (AList.update ''clientID'' (JStr (the (map_of c2 ''googleClientID'')))
                               (AList.update ''refreshToken'' (JStr (the (map_of c2 ''googleRefToken'')))
                                (AList.update ''accessToken'' (JStr (the (map_of c2 ''googleAccToken'')))
                                  (googleTokenMap st)))),
                           checkPurchaseState := True\<rparr>
                  else st1)"

text \<open>
  \<open>str.replace(/\<dots>+$/, '')\<close> for a one-character class: the match starts at the first
  character of the longest run of such characters that ends the string, so the run is
  removed; without such a run the string is returned as it is.
\<close>

definition stripTrailing :: "(char \<Rightarrow> bool) \<Rightarrow> string \<Rightarrow> string" where
  "stripTrailing cls s = rev (dropWhile cls (rev s))"

text \<open>The class \<open>\s\<close> on code units below 256.\<close>

definition whitespace :: "char \<Rightarrow> bool" where
  "whitespace c = (c \<in> set [CHR 0x09, CHR 0x0A, CHR 0x0B, CHR 0x0C, CHR 0x0D, CHR 0x20, CHR 0xA0])"

text \<open>
  Modelled from the spec: \<open>async.eachSeries\<close> (the file \<open>./async\<close> is not among the
  sources) visits the keys one after the other ("sequential-per-key-file") and then
  invokes the callback.
\<close>

definition eachSeries :: "'k list \<Rightarrow> ('k \<Rightarrow> 's \<Rightarrow> 's) \<Rightarrow> 's \<Rightarrow> 's" where
  "eachSeries keys iterator s = fold iterator keys s"

definition setup_module :: "host \<Rightarrow> module \<Rightarrow> module" where
  "setup_module h st =
     (if present (cfg st ''googlePublicKeyStrSandbox'') \<or> present (cfg st ''googlePublicKeyStrLive'') then
        let st1 = (if present (cfg st ''googlePublicKeyStrSandbox'')
                   then st\<lparr>publicKeyMap := AList.update ''sandbox''
                              (the (cfg st ''googlePublicKeyStrSandbox'')) (publicKeyMap st)\<rparr>
                   else st)
        in (if present (cfg st ''googlePublicKeyStrLive'')
            then st1\<lparr>publicKeyMap := AList.update ''live''
                        (the (cfg st ''googlePublicKeyStrLive'')) (publicKeyMap st1)\<rparr>
            else st1)
      else if config st = None \<or> \<not> present (cfg st ''googlePublicKeyPath'') then
        let st1 = (if present (process_env h ENV_PUBLICKEY_SANDBOX)
                   then st\<lparr>publicKeyMap := AList.update ''sandbox''
                              (stripTrailing (\<lambda>c. c = CHR ''s'') (the (process_env h ENV_PUBLICKEY_SANDBOX)))
                              (publicKeyMap st)\<rparr>
                   else st)
        in (if present (process_env h ENV_PUBLICKEY_LIVE)
            then st1\<lparr>publicKeyMap := AList.update ''live''
                        (stripTrailing (\<lambda>c. c = CHR ''s'') (the (process_env h ENV_PUBLICKEY_LIVE)))
                        (publicKeyMap st1)\<rparr>
            else st1)
      else
        eachSeries (map fst (keyPathMap st))
          (\<lambda>key s.
             let pkeyPath = the (map_of (keyPathMap st) key)
             in case readFile h pkeyPath of
                  None \<Rightarrow> s
                | Some fileData \<Rightarrow>
                    s\<lparr>publicKeyMap := AList.update key (stripTrailing whitespace fileData) (publicKeyMap s)\<rparr>)
          st)"

section \<open>Signature verification\<close>

text \<open>The characters that \<open>.\<close> does not match, on code units below 256.\<close>

definition lineTerminator :: "char \<Rightarrow> bool" where
  "lineTerminator c = (c = CHR 0x0A \<or> c = CHR 0x0D)"

text \<open>
  \<open>str.match(new RegExp('.{0,' + len + '}', 'g'))\<close>: the greedy matches from left to
  right. An empty match (at a line terminator, or at the end of the string) is part of the
  result and moves the search one character on; the last match is the empty one at the end.
\<close>

function matchChunks :: "nat \<Rightarrow> string \<Rightarrow> string list" where
  "matchChunks len s =
     (if takeWhile (\<lambda>c. \<not> lineTerminator c) (take len s) = [] then
        (case s of [] \<Rightarrow> [[]] | c # rest \<Rightarrow> [] # matchChunks len rest)
      else takeWhile (\<lambda>c. \<not> lineTerminator c) (take len s)
             # matchChunks len (drop (length (takeWhile (\<lambda>c. \<not> lineTerminator c) (take len s))) s))"
  by pat_completeness auto
termination
proof (relation "measure (\<lambda>(len, s). length s)")
  show "wf (measure (\<lambda>(len, s). length s))" by simp
next
  fix len :: nat and s :: string and c rest
  assume "s = c # rest"
  then show "((len, rest), (len, s)) \<in> measure (\<lambda>(len, s). length s)" by simp
next
  fix len :: nat and s :: string
  assume ne: "takeWhile (\<lambda>c. \<not> lineTerminator c) (take len s) \<noteq> []"
  then have "s \<noteq> []" by auto
  moreover from ne have "0 < length (takeWhile (\<lambda>c. \<not> lineTerminator c) (take len s))" by simp
  ultimately show "((len, drop (length (takeWhile (\<lambda>c. \<not> lineTerminator c) (take len s))) s), (len, s))
          \<in> measure (\<lambda>(len, s). length s)"
    by (cases s) auto
qed

declare matchChunks.simps [simp del]

text \<open>
  \<open>chunkSplit(str, len, end)\<close> with a numeric \<open>len\<close>: \<open>parseInt(len, 10) || 76\<close> replaces
  zero by 76, and \<open>None\<close> is the result \<open>false\<close>.
\<close>

definition chunkSplit :: "string \<Rightarrow> int \<Rightarrow> string \<Rightarrow> string option" where
  "chunkSplit str len endStr =
     (let len1 = (if len = 0 then 76 else len)
      in if len1 < 1 then None
         else Some (join (if endStr = [] then [CHR 0x0D, CHR 0x0A] else endStr)
                      (matchChunks (nat len1) str)))"

definition getPublicKey :: "string option \<Rightarrow> string option" where
  "getPublicKey publicKey =
     (if \<not> present publicKey then None
      else
        let key = (case chunkSplit (the publicKey) 64 [CHR 0x0A] of None \<Rightarrow> ''false'' | Some k \<Rightarrow> k)
        in Some (''-----BEGIN PUBLIC KEY-----'' @ [CHR 0x0A] @ key
                 @ ''-----END PUBLIC KEY-----'' @ [CHR 0x0A]))"

text \<open>
  \<open>validatePublicKey\<close> invokes its callback synchronously: \<open>Failed e\<close> is \<open>cb(e)\<close>,
  \<open>Verified d\<close> is \<open>cb(null, d)\<close>, and \<open>Raised e\<close> is an exception that leaves the
  function (only \<open>verify\<close> is inside the \<open>try\<close>).
\<close>

datatype verdict = Failed jserror | Verified jsval | Raised jserror

definition validatePublicKey :: "env \<Rightarrow> jsval \<Rightarrow> string option \<Rightarrow> verdict" where
  "validatePublicKey env receipt pkey =
     (if \<not> truthy receipt then Failed (Error ''missing receipt data'')
      else case getProp receipt ''data'' of
        Inl e \<Rightarrow> Raised e
      | Inr d \<Rightarrow>
          if \<not> truthy d then Failed (Error ''missing receipt data'')
          else if \<not> present pkey then Failed (Error ''missing public key'')
          else if typeof d \<noteq> ''string'' then Failed (Error ''receipt.data must be a string'')
          else case getProp receipt ''signature'' of
            Inl e \<Rightarrow> Raised e
          | Inr sg \<Rightarrow>
              (case crypto_verify env (toString d) (the pkey) sg of
                 Inl error \<Rightarrow> Failed error
               | Inr valid \<Rightarrow>
                   if valid then
                     (case bindE (JSON_parse env (toString d))
                             (\<lambda>data. setProp data ''status'' VALIDATION_SUCCESS) of
                        Inl e \<Rightarrow> Raised e
                      | Inr data \<Rightarrow> Verified data)
                   else Failed (Error ''failed to validate purchase'')))"

section \<open>Purchase status\<close>

text \<open>
  What a call ends in: the callback invoked with \<open>(error, result)\<close>; an exception leaving
  the call synchronously; an exception raised inside a \<open>request\<close> callback, which nothing
  catches; or a request that never answers.
\<close>

datatype outcome =
    Called "jserror option" jsval
  | Thrown jserror
  | Uncaught jserror
  | Pending

text \<open>\<open>{status: constants.VALIDATION.FAILURE, message: m}\<close>\<close>

definition failure :: "jsval \<Rightarrow> jsval" where
  "failure m = JObj [(''status'', VALIDATION_FAILURE), (''message'', m)]"

definition getPurchaseInfo :: "env \<Rightarrow> module \<Rightarrow> event list \<Rightarrow> string \<Rightarrow> reply \<times> event list" where
  "getPurchaseInfo env st tr url =
     (let options = GET url (''Bearer '' @ toString (token st ''accessToken''))
      in (request env tr options, tr @ [Lookup options]))"

definition refreshGoogleTokens :: "env \<Rightarrow> module \<Rightarrow> event list \<Rightarrow> reply \<times> event list" where
  "refreshGoogleTokens env st tr =
     (let body = [(''grant_type'', JStr ''refresh_token''),
                  (''client_id'', token st ''clientID''),
                  (''client_secret'', token st ''clientSecret''),
                  (''refresh_token'', token st ''refreshToken'')];
          options = POST ''https://accounts.google.com/o/oauth2/token'' body
      in (request env tr options, tr @ [Refresh options]))"

text \<open>
  The variables that the closures of \<open>checkPurchaseStatus\<close> share: the payload \<open>data\<close>,
  the local \<open>state\<close>, the module state, and the events so far.
\<close>

record run =
  data :: jsval
  state :: jsval
  globals :: module
  trace :: "event list"

text \<open>
  A task of the series either calls \<open>next(error, result)\<close>, or ends the call without it
  (the callback \<open>cb\<close> invoked directly, an uncaught exception, no answer).
\<close>

datatype signal = Next "jserror option" "jsval option" | Exit outcome

text \<open>\<open>error || 'error' in body\<close>\<close>

definition lookupFailed :: "jserror option \<Rightarrow> jsval \<Rightarrow> jserror + bool" where
  "lookupFailed error body = (if error \<noteq> None then Inr True else hasProp ''error'' body)"

text \<open>
  \<open>data.autoRenewing = body.autoRenewing; data.expirationTime = body.expiryTimeMillis;\<close>
\<close>

definition copySubscription :: "jsval \<Rightarrow> jsval \<Rightarrow> jserror + jsval" where
  "copySubscription body d =
     bindE (getProp body ''autoRenewing'') (\<lambda>a.
     bindE (setProp d ''autoRenewing'' a) (\<lambda>d1.
     bindE (getProp body ''expiryTimeMillis'') (\<lambda>x.
     setProp d1 ''expirationTime'' x)))"

text \<open>\<open>body.error.message || body.error\<close>\<close>

definition bodyErrorMsg :: "jsval \<Rightarrow> jserror + jsval" where
  "bodyErrorMsg body =
     bindE (getProp body ''error'') (\<lambda>err.
     bindE (getProp err ''message'') (\<lambda>msg.
     Inr (or_js msg err)))"

definition getSubInfo :: "env \<Rightarrow> string \<Rightarrow> jsval \<Rightarrow> run \<Rightarrow> signal \<times> run" where
  "getSubInfo env url isSubscription r =
     (case getPurchaseInfo env (globals r) (trace r) url of
        (rep, tr) \<Rightarrow>
          (case rep of
             NoReply \<Rightarrow> (Exit Pending, r\<lparr>trace := tr\<rparr>)
           | Reply error body \<Rightarrow>
               (case lookupFailed error body of
                  Inl e \<Rightarrow> (Exit (Uncaught e), r\<lparr>trace := tr\<rparr>)
                | Inr failed \<Rightarrow>
                    if failed then (Next None None, r\<lparr>trace := tr, state := VALIDATION_FAILURE\<rparr>)
                    else
                      (case (if truthy isSubscription then copySubscription body (data r)
                             else Inr (data r)) of
                         Inl e \<Rightarrow> (Exit (Uncaught e), r\<lparr>trace := tr\<rparr>)
                       | Inr d \<Rightarrow>
                           (Next None None, r\<lparr>trace := tr, data := d, state := VALIDATION_SUCCESS\<rparr>)))))"

definition validate :: "env \<Rightarrow> run \<Rightarrow> signal \<times> run" where
  "validate env r =
     (if state r = VALIDATION_SUCCESS then (Next None (Some VALIDATION_FAILURE), r)
      else if state r = VALIDATION_FAILURE then
        (case refreshGoogleTokens env (globals r) (trace r) of
           (rep, tr) \<Rightarrow>
             (case rep of
                NoReply \<Rightarrow> (Exit Pending, r\<lparr>trace := tr\<rparr>)
              | Reply error body \<Rightarrow>
                  (case error of
                     Some e \<Rightarrow> (Exit (Called (Some e) (failure (JStr (message e)))), r\<lparr>trace := tr\<rparr>)
                   | None \<Rightarrow>
                       (case JSON_parse env (toString body) of
                          Inl e \<Rightarrow> (Exit (Uncaught e), r\<lparr>trace := tr\<rparr>)
                        | Inr parsedBody \<Rightarrow>
                            (case hasProp ''error'' parsedBody of
                               Inl e \<Rightarrow> (Exit (Uncaught e), r\<lparr>trace := tr\<rparr>)
                             | Inr hasError \<Rightarrow>
                                 if hasError then
                                   (case bodyErrorMsg parsedBody of
                                      Inl e \<Rightarrow> (Exit (Uncaught e), r\<lparr>trace := tr\<rparr>)
                                    | Inr msg \<Rightarrow>
                                        (Exit (Called (Some (newError msg)) (failure msg)),
                                         r\<lparr>trace := tr\<rparr>))
                                 else
                                   (case getProp parsedBody ''access_token'' of
                                      Inl e \<Rightarrow> (Exit (Uncaught e), r\<lparr>trace := tr\<rparr>)
                                    | Inr tok \<Rightarrow>
                                        (Next None None,
                                         r\<lparr>trace := tr,
                                           globals := (globals r)\<lparr>googleTokenMap :=
                                             AList.update ''accessToken'' tok (googleTokenMap (globals r))\<rparr>,
                                           state := VALIDATION_SUCCESS\<rparr>)))))))
      else (Exit Pending, r))"

definition recheck :: "env \<Rightarrow> string \<Rightarrow> jsval \<Rightarrow> run \<Rightarrow> signal \<times> run" where
  "recheck env url isSubscription r =
     (if state r = VALIDATION_SUCCESS then
        (case getPurchaseInfo env (globals r) (trace r) url of
           (rep, tr) \<Rightarrow>
             (case rep of
                NoReply \<Rightarrow> (Exit Pending, r\<lparr>trace := tr\<rparr>)
              | Reply error body \<Rightarrow>
                  (case lookupFailed error body of
                     Inl e \<Rightarrow> (Exit (Uncaught e), r\<lparr>trace := tr\<rparr>)
                   | Inr failed \<Rightarrow>
                       if failed then
                         (case bodyErrorMsg body of
                            Inl e \<Rightarrow> (Exit (Uncaught e), r\<lparr>trace := tr\<rparr>)
                          | Inr msg \<Rightarrow>
                              (Next (Some (case error of Some e \<Rightarrow> e | None \<Rightarrow> newError msg)) None,
                               r\<lparr>trace := tr, state := VALIDATION_FAILURE\<rparr>))
                       else
                         (case (if truthy isSubscription then copySubscription body (data r)
                                else Inr (data r)) of
                            Inl e \<Rightarrow> (Exit (Uncaught e), r\<lparr>trace := tr\<rparr>)
                          | Inr d \<Rightarrow>
                              (Next None None, r\<lparr>trace := tr, data := d, state := VALIDATION_SUCCESS\<rparr>)))))
      else (Next None None, r\<lparr>state := VALIDATION_FAILURE\<rparr>))"

definition done_cb :: "jserror option \<Rightarrow> run \<Rightarrow> outcome" where
  "done_cb error r =
     (case error of
        Some e \<Rightarrow> Called (Some e) (failure (JStr (message e)))
      | None \<Rightarrow> Called None (data r))"

text \<open>
  Modelled from the spec: \<open>async.series\<close> (the file \<open>./async\<close> is not among the sources)
  runs the tasks strictly one after the other ("a fixed three-step sequence"), each with
  the single argument \<open>next\<close>. An error passed to \<open>next\<close> ends the series with
  \<open>done(error)\<close>; a second argument of \<open>next\<close> is not handed to the following task; after the
  last task \<open>done()\<close> is called. A task that never calls \<open>next\<close> ends the series there.
\<close>

fun series :: "(run \<Rightarrow> signal \<times> run) list \<Rightarrow> (jserror option \<Rightarrow> run \<Rightarrow> outcome) \<Rightarrow> run \<Rightarrow> outcome \<times> run" where
  "series [] finish r = (finish None r, r)"
| "series (task # tasks) finish r =
     (case task r of
        (sg, r1) \<Rightarrow>
          (case sg of
             Exit out \<Rightarrow> (out, r1)
           | Next error res \<Rightarrow>
               (case error of
                  Some e \<Rightarrow> (finish (Some e) r1, r1)
                | None \<Rightarrow> series tasks finish r1)))"

text \<open>\<open>options && options.subscription\<close>; a truthy value is neither null nor undefined.\<close>

definition isSubscriptionOf :: "jsval \<Rightarrow> jsval" where
  "isSubscriptionOf options =
     (if truthy options
      then (case getProp options ''subscription'' of Inr v \<Rightarrow> v | Inl e \<Rightarrow> JUndefined)
      else options)"

definition purchaseUrl :: "jsval \<Rightarrow> jsval \<Rightarrow> jserror + string" where
  "purchaseUrl d isSubscription =
     bindE (getProp d ''packageName'') (\<lambda>packageName.
     bindE (getProp d ''productId'') (\<lambda>productId.
     bindE (getProp d ''purchaseToken'') (\<lambda>purchaseToken.
     Inr (''https://www.googleapis.com/androidpublisher/v2/applications/'' @ toString packageName
          @ ''/purchases/'' @ (if truthy isSubscription then ''subscriptions'' else ''products'')
          @ ''/'' @ toString productId @ ''/tokens/'' @ toString purchaseToken))))"

definition checkPurchaseStatus :: "env \<Rightarrow> module \<Rightarrow> event list \<Rightarrow> jsval \<Rightarrow> jsval \<Rightarrow> outcome \<times> run" where
  "checkPurchaseStatus env st tr data0 options =
     (case setProp data0 ''service'' SERVICES_GOOGLE of
        Inl e \<Rightarrow> (Thrown e, \<lparr>data = data0, state = JUndefined, globals = st, trace = tr\<rparr>)
      | Inr d \<Rightarrow>
          if \<not> checkPurchaseState st
          then (Called None d, \<lparr>data = d, state = JUndefined, globals = st, trace = tr\<rparr>)
          else
            (case purchaseUrl d (isSubscriptionOf options) of
               Inl e \<Rightarrow> (Thrown e, \<lparr>data = d, state = JUndefined, globals = st, trace = tr\<rparr>)
             | Inr url \<Rightarrow>
                 series [getSubInfo env url (isSubscriptionOf options),
                         validate env,
                         recheck env url (isSubscriptionOf options)]
                   done_cb \<lparr>data = d, state = JUndefined, globals = st, trace = tr\<rparr>))"

section \<open>validatePurchase and refreshToken\<close>

text \<open>\<open>str.replace(/\//g, '\\/')\<close>: a backslash before every slash.\<close>

definition escapeSlashes :: "string \<Rightarrow> string" where
  "escapeSlashes s = concat (map (\<lambda>c. if c = CHR ''/'' then [CHR 0x5C, CHR ''/''] else [c]) s)"

text \<open>
  The value that \<open>receipt.data\<close> holds after lines 140 to 144: an object is replaced by
  \<open>JSON.stringify(receipt.data).replace(/\//g, '\\/')\<close>, anything else is left alone.
\<close>

definition canonicalData :: "jsval \<Rightarrow> jserror + jsval" where
  "canonicalData d =
     (if typeof d = ''object'' then
        (case stringify d of
           None \<Rightarrow> Inl (TypeError ''Cannot read property replace of undefined'')
         | Some s \<Rightarrow> Inr (JStr (escapeSlashes s)))
      else Inr d)"

definition canonicalize :: "jsval \<Rightarrow> jserror + jsval" where
  "canonicalize receipt =
     bindE (getProp receipt ''data'') (\<lambda>d.
       if typeof d = ''object'' then bindE (canonicalData d) (setProp receipt ''data'')
       else Inr receipt)"

text \<open>\<open>!receipt.data || !receipt.signature\<close>\<close>

definition missingContent :: "jsval \<Rightarrow> jserror + bool" where
  "missingContent receipt =
     bindE (getProp receipt ''data'') (\<lambda>d.
       if \<not> truthy d then Inr True
       else bindE (getProp receipt ''signature'') (\<lambda>sg. Inr (\<not> truthy sg)))"

text \<open>
  The result of a call of \<open>validatePurchase\<close>: how it ended, the events in order, the
  caller's receipt object and the module state after the call.
\<close>

record result =
  outcome :: outcome
  events :: "event list"
  receipt_after :: jsval
  module_after :: module

definition reconciled :: "jsval \<Rightarrow> outcome \<times> run \<Rightarrow> result" where
  "reconciled receipt p =
     \<lparr>outcome = fst p, events = trace (snd p), receipt_after = receipt,
      module_after = globals (snd p)\<rparr>"

definition validatePurchase :: "env \<Rightarrow> module \<Rightarrow> string option \<Rightarrow> jsval \<Rightarrow> jsval \<Rightarrow> result" where
  "validatePurchase env st dPubkey receipt options =
     (if typeof receipt \<noteq> ''object'' then
        \<lparr>outcome = Called (Some (Error (''malformed receipt: '' @ toString receipt)))
                    (failure (JStr ''Malformed receipt'')),
         events = [], receipt_after = receipt, module_after = st\<rparr>
      else case missingContent receipt of
        Inl e \<Rightarrow> \<lparr>outcome = Thrown e, events = [], receipt_after = receipt, module_after = st\<rparr>
      | Inr missing \<Rightarrow>
          if missing then
            \<lparr>outcome = Called (Some (Error (''missing receipt data:'' @ [CHR 0x0A]
                                              @ str_or_undefined (stringify receipt))))
                        (failure (JStr ''Malformed receipt'')),
             events = [], receipt_after = receipt, module_after = st\<rparr>
          else case canonicalize receipt of
            Inl e \<Rightarrow> \<lparr>outcome = Thrown e, events = [], receipt_after = receipt, module_after = st\<rparr>
          | Inr receipt1 \<Rightarrow>
              let pubkey = (if present dPubkey then dPubkey else map_of (publicKeyMap st) ''live'');
                  tr1 = [KeyRead ''live'', Verify (getPublicKey pubkey)]
              in case validatePublicKey env receipt1 (getPublicKey pubkey) of
                   Failed error \<Rightarrow>
                     if \<not> present (map_of (publicKeyMap st) ''sandbox'') then
                       \<lparr>outcome = Called (Some error) (failure (JStr (message error))),
                        events = tr1 @ [KeyRead ''sandbox''],
                        receipt_after = receipt1, module_after = st\<rparr>
                     else
                       let sandbox = map_of (publicKeyMap st) ''sandbox'';
                           tr2 = tr1 @ [KeyRead ''sandbox'', KeyRead ''sandbox'',
                                        Verify (getPublicKey sandbox)]
                       in (case validatePublicKey env receipt1 (getPublicKey sandbox) of
                             Failed error2 \<Rightarrow>
                               \<lparr>outcome = Called (Some error) (failure (JStr (message error))),
                                events = tr2, receipt_after = receipt1, module_after = st\<rparr>
                           | Verified d \<Rightarrow>
                               reconciled receipt1 (checkPurchaseStatus env st tr2 d options)
                           | Raised e \<Rightarrow>
                               \<lparr>outcome = Thrown e, events = tr2, receipt_after = receipt1,
                                module_after = st\<rparr>)
                 | Verified d \<Rightarrow> reconciled receipt1 (checkPurchaseStatus env st tr1 d options)
                 | Raised e \<Rightarrow>
                     \<lparr>outcome = Thrown e, events = tr1, receipt_after = receipt1,
                      module_after = st\<rparr>)"

text \<open>The exported \<open>refreshToken\<close>: how it ended, the events, and the module state after.\<close>

definition refreshToken :: "env \<Rightarrow> module \<Rightarrow> outcome \<times> event list \<times> module" where
  "refreshToken env st =
     (if \<not> checkPurchaseState st then
        (Called (Some (Error ''missing google play api info''))
           (failure (JStr ''client_id, client_secret, access_token and refres_token should be provided'')),
         [], st)
      else
        (case refreshGoogleTokens env st [] of
           (rep, tr) \<Rightarrow>
             (case rep of
                NoReply \<Rightarrow> (Pending, tr, st)
              | Reply error body \<Rightarrow>
                  (case error of
                     Some e \<Rightarrow> (Called (Some e) (failure (JStr (message e))), tr, st)
                   | None \<Rightarrow>
                       (case JSON_parse env (toString body) of
                          Inl e \<Rightarrow> (Uncaught e, tr, st)
                        | Inr parsedBody \<Rightarrow>
                            (case hasProp ''error'' parsedBody of
                               Inl e \<Rightarrow> (Uncaught e, tr, st)
                             | Inr hasError \<Rightarrow>
                                 if hasError then
                                   (case getProp parsedBody ''error'' of
                                      Inl e \<Rightarrow> (Uncaught e, tr, st)
                                    | Inr err \<Rightarrow> (Called (Some (newError err)) (failure err), tr, st))
                                 else
                                   (case getProp parsedBody ''access_token'' of
                                      Inl e \<Rightarrow> (Uncaught e, tr, st)
                                    | Inr tok \<Rightarrow>
                                        (Called None parsedBody, tr,
                                         st\<lparr>googleTokenMap :=
                                              AList.update ''accessToken'' tok (googleTokenMap st)\<rparr>))))))))"

section \<open>Counting remote calls\<close>

fun isLookup :: "event \<Rightarrow> bool" where
  "isLookup (Lookup q) = True"
| "isLookup ev = False"

fun isRefresh :: "event \<Rightarrow> bool" where
  "isRefresh (Refresh q) = True"
| "isRefresh ev = False"

definition lookups :: "event list \<Rightarrow> nat" where
  "lookups tr = length (filter isLookup tr)"

definition refreshes :: "event list \<Rightarrow> nat" where
  "refreshes tr = length (filter isRefresh tr)"

section \<open>The resolution of trust anchors that the specification describes\<close>

definition strField :: "string \<Rightarrow> string" where
  "strField tag = (if tag = ''sandbox'' then ''googlePublicKeyStrSandbox'' else ''googlePublicKeyStrLive'')"

definition envVar :: "string \<Rightarrow> string" where
  "envVar tag = (if tag = ''sandbox'' then ENV_PUBLICKEY_SANDBOX else ENV_PUBLICKEY_LIVE)"

definition pkeyName :: "string \<Rightarrow> string" where
  "pkeyName tag = (if tag = ''sandbox'' then sandboxPkey else livePkey)"

text \<open>
  The specification's words, for one environment tag: "precedence: explicit string > file
  path > environment variable, first one present wins per environment tag".
\<close>

definition specTrustAnchor :: "host \<Rightarrow> module \<Rightarrow> string \<Rightarrow> string option" where
  "specTrustAnchor h st tag =
     (if present (cfg st (strField tag)) then cfg st (strField tag)
      else case (case map_of (keyPathMap st) tag of None \<Rightarrow> None | Some p \<Rightarrow> readFile h p) of
        Some fileData \<Rightarrow> Some (stripTrailing whitespace fileData)
      | None \<Rightarrow>
          if present (process_env h (envVar tag))
          then Some (stripTrailing (\<lambda>c. c = CHR ''s'') (the (process_env h (envVar tag))))
          else None)"

section \<open>Sample collaborators\<close>

text \<open>
  Concrete collaborators for running the model: a parser that knows the texts of a table of
  values (a text is what \<open>JSON.stringify\<close> writes for the value, with or without a
  backslash before each slash) and rejects every other text; a verifier with a fixed verdict; an endpoint that answers the remote calls of one
  run from a script and is silent afterwards; a host with no key files.
\<close>

definition parseAmong :: "jsval list \<Rightarrow> string \<Rightarrow> jserror + jsval" where
  "parseAmong vs s =
     (case filter (\<lambda>v. stringify v = Some s \<or> map_option escapeSlashes (stringify v) = Some s) vs of
        [] \<Rightarrow> Inl (SyntaxError ''Unexpected token'')
      | v # rest \<Rightarrow> Inr v)"

definition scripted :: "reply list \<Rightarrow> event list \<Rightarrow> http_request \<Rightarrow> reply" where
  "scripted rs tr q =
     (if lookups tr + refreshes tr < length rs then rs ! (lookups tr + refreshes tr) else NoReply)"

definition sample_table :: "jsval list" where
  "sample_table = [JObj [], JObj [(''access_token'', JStr ''fresh'')], JObj [(''error'', JNull)],
                   JObj [(''error'', JStr ''invalid_grant'')],
                   JObj [(''developerPayload'', JStr ''a/b'')], JNum 1]"

definition sample_env :: "bool \<Rightarrow> reply list \<Rightarrow> env" where
  "sample_env valid rs =
     \<lparr>crypto_verify = (\<lambda>d k sg. Inr valid), JSON_parse = parseAmong sample_table,
      request = scripted rs\<rparr>"

definition json_text :: "jsval \<Rightarrow> jsval" where
  "json_text v = JStr (str_or_undefined (stringify v))"

definition sample_host :: host where
  "sample_host =
     \<lparr>readFile = (\<lambda>p. if p = ''/keys/iap-live'' then Some (''FILEKEYss '' @ [CHR 0x0A]) else None),
      process_env = (\<lambda>n. if n = ENV_PUBLICKEY_SANDBOX then Some (''ENVKEYss '' @ [CHR 0x0A])
                          else if n = ENV_PUBLICKEY_LIVE then Some ''ENVKEYss'' else None)\<rparr>"

definition sample_credentials :: "(string \<times> string) list" where
  "sample_credentials = [(''googleAccToken'', ''stale''), (''googleRefToken'', ''refresh''),
                         (''googleClientID'', ''id''), (''googleClientSecret'', ''secret'')]"

text \<open>Module states reached by \<open>readConfig\<close> and \<open>setup\<close> from the initial state.\<close>

definition live_only :: module where
  "live_only = setup_module sample_host (readConfig reset (Some [(''googlePublicKeyStrLive'', ''LIVEKEY'')]))"

definition live_with_credentials :: module where
  "live_with_credentials =
     setup_module sample_host
       (readConfig reset (Some ((''googlePublicKeyStrLive'', ''LIVEKEY'') # sample_credentials)))"

definition sandbox_only :: module where
  "sandbox_only =
     setup_module sample_host (readConfig reset (Some [(''googlePublicKeyStrSandbox'', ''SANDBOXKEY'')]))"

definition sample_receipt :: jsval where
  "sample_receipt = JObj [(''data'', JStr ''{}''), (''signature'', JStr ''c2lnbmF0dXJl'')]"

text \<open>A signed receipt whose data is the JSON text of a number.\<close>

definition number_receipt :: jsval where
  "number_receipt = JObj [(''data'', JStr ''1''), (''signature'', JStr ''c2lnbmF0dXJl'')]"

definition unsigned_receipt :: jsval where
  "unsigned_receipt = JObj [(''data'', JObj [(''developerPayload'', JStr ''a/b'')])]"

definition payload_receipt :: jsval where
  "payload_receipt = JObj [(''data'', JObj [(''developerPayload'', JStr ''a/b'')]),
                           (''signature'', JStr ''c2lnbmF0dXJl'')]"

definition other_payload_receipt :: jsval where
  "other_payload_receipt = JObj [(''signature'', JStr ''b3RoZXI=''),
                                 (''data'', JObj [(''developerPayload'', JStr ''a/b'')])]"

definition payload_text :: string where
  "payload_text = ''{'' @ [CHR 0x22] @ ''developerPayload'' @ [CHR 0x22] @ '':'' @ [CHR 0x22]
                  @ ''a'' @ [CHR 0x5C] @ ''/b'' @ [CHR 0x22] @ ''}''"

text \<open>Scripts of the remote endpoints, one reply per request.\<close>

definition stale_then_fresh :: "reply list" where
  "stale_then_fresh =
     [Reply None (JObj [(''error'', JStr ''invalid token'')]),
      Reply None (json_text (JObj [(''access_token'', JStr ''fresh'')])),
      Reply None (JObj [(''autoRenewing'', JBool True), (''expiryTimeMillis'', JNum 1700000000000)])]"

definition both_ok :: "reply list" where
  "both_ok = [Reply None (JObj [(''purchaseState'', JNum 0)]),
              Reply None (JObj [(''purchaseState'', JNum 0)])]"

definition refresh_error_null :: "reply list" where
  "refresh_error_null =
     [Reply None (JObj [(''error'', JStr ''invalid token'')]),
      Reply None (json_text (JObj [(''error'', JNull)]))]"

definition refresh_invalid_grant :: "reply list" where
  "refresh_invalid_grant =
     [Reply None (JObj [(''error'', JStr ''invalid token'')]),
      Reply None (json_text (JObj [(''error'', JStr ''invalid_grant'')]))]"

definition recheck_timeout :: "reply list" where
  "recheck_timeout =
     [Reply (Some (Error ''ETIMEDOUT'')) JUndefined,
      Reply None (json_text (JObj [(''access_token'', JStr ''fresh'')])),
      Reply (Some (Error ''ETIMEDOUT'')) JUndefined]"

definition not_json :: "reply list" where
  "not_json = [Reply None (JStr ''<html>'')]"

section \<open>Properties: the number of remote calls\<close>

lemma lookups_append [simp]: "lookups (xs @ ys) = lookups xs + lookups ys"
  by (simp add: lookups_def)

lemma refreshes_append [simp]: "refreshes (xs @ ys) = refreshes xs + refreshes ys"
  by (simp add: refreshes_def)

lemma lookups_Cons: "lookups (ev # tr) = (if isLookup ev then 1 else 0) + lookups tr"
  by (simp add: lookups_def)

lemma refreshes_Cons: "refreshes (ev # tr) = (if isRefresh ev then 1 else 0) + refreshes tr"
  by (simp add: refreshes_def)

lemma lookups_Nil [simp]: "lookups [] = 0"
  by (simp add: lookups_def)

lemma refreshes_Nil [simp]: "refreshes [] = 0"
  by (simp add: refreshes_def)

text \<open>What each of the three tasks adds to the events.\<close>

lemma getSubInfo_trace:
  "\<exists>q. trace (snd (getSubInfo env url sub r)) = trace r @ [Lookup q]"
  by (auto simp: getSubInfo_def getPurchaseInfo_def Let_def split: reply.splits sum.splits)

lemma validate_trace:
  "trace (snd (validate env r)) = trace r
   \<or> (\<exists>q. trace (snd (validate env r)) = trace r @ [Refresh q])"
  by (auto simp: validate_def refreshGoogleTokens_def Let_def
      split: reply.splits sum.splits option.splits)

lemma recheck_trace:
  "trace (snd (recheck env url sub r)) = trace r
   \<or> (\<exists>q. trace (snd (recheck env url sub r)) = trace r @ [Lookup q])"
  by (auto simp: recheck_def getPurchaseInfo_def Let_def
      split: reply.splits sum.splits option.splits)

lemma series_step:
  "series (task # tasks) finish r =
     (case fst (task r) of
        Exit out \<Rightarrow> (out, snd (task r))
      | Next error res \<Rightarrow>
          (case error of
             Some e \<Rightarrow> (finish (Some e) (snd (task r)), snd (task r))
           | None \<Rightarrow> series tasks finish (snd (task r))))"
  by (cases "task r") (simp split: signal.splits option.splits)

lemma series3_trace:
  "trace (snd (series [t1, t2, t3] finish r)) \<in>
     {trace (snd (t1 r)), trace (snd (t2 (snd (t1 r)))), trace (snd (t3 (snd (t2 (snd (t1 r))))))}"
  by (simp add: series_step del: series.simps(2) split: signal.splits option.splits)

lemma tasks_lookups:
  "lookups (trace (snd (series [getSubInfo env url sub, validate env, recheck env url sub] finish r)))
     \<le> lookups (trace r) + 2"
proof -
  let ?r1 = "snd (getSubInfo env url sub r)"
  let ?r2 = "snd (validate env ?r1)"
  let ?r3 = "snd (recheck env url sub ?r2)"
  have a: "lookups (trace ?r1) = lookups (trace r) + 1"
    using getSubInfo_trace [of env url sub r] by (auto simp: lookups_Cons)
  have b: "lookups (trace ?r2) = lookups (trace ?r1)"
    using validate_trace [of env ?r1] by (auto simp: lookups_Cons)
  have c: "lookups (trace ?r3) \<le> lookups (trace ?r2) + 1"
    using recheck_trace [of env url sub ?r2] by (auto simp: lookups_Cons)
  from series3_trace [of "getSubInfo env url sub" "validate env" "recheck env url sub" finish r]
  show ?thesis using a b c by auto
qed

lemma tasks_refreshes:
  "refreshes (trace (snd (series [getSubInfo env url sub, validate env, recheck env url sub] finish r)))
     \<le> refreshes (trace r) + 1"
proof -
  let ?r1 = "snd (getSubInfo env url sub r)"
  let ?r2 = "snd (validate env ?r1)"
  let ?r3 = "snd (recheck env url sub ?r2)"
  have a: "refreshes (trace ?r1) = refreshes (trace r)"
    using getSubInfo_trace [of env url sub r] by (auto simp: refreshes_Cons)
  have b: "refreshes (trace ?r2) \<le> refreshes (trace ?r1) + 1"
    using validate_trace [of env ?r1] by (auto simp: refreshes_Cons)
  have c: "refreshes (trace ?r3) = refreshes (trace ?r2)"
    using recheck_trace [of env url sub ?r2] by (auto simp: refreshes_Cons)
  from series3_trace [of "getSubInfo env url sub" "validate env" "recheck env url sub" finish r]
  show ?thesis using a b c by auto
qed

lemma checkPurchaseStatus_calls:
  "lookups (trace (snd (checkPurchaseStatus env st tr d options))) \<le> lookups tr + 2
   \<and> refreshes (trace (snd (checkPurchaseStatus env st tr d options))) \<le> refreshes tr + 1"
proof (cases "setProp d ''service'' SERVICES_GOOGLE")
  case (Inl e)
  then show ?thesis by (simp add: checkPurchaseStatus_def)
next
  case (Inr d1)
  show ?thesis
  proof (cases "checkPurchaseState st")
    case False
    with Inr show ?thesis by (simp add: checkPurchaseStatus_def)
  next
    case True
    show ?thesis
    proof (cases "purchaseUrl d1 (isSubscriptionOf options)")
      case (Inl e)
      with \<open>setProp d ''service'' SERVICES_GOOGLE = Inr d1\<close> True show ?thesis
        by (simp add: checkPurchaseStatus_def)
    next
      case (Inr url)
      let ?r = "\<lparr>data = d1, state = JUndefined, globals = st, trace = tr\<rparr>"
      have "checkPurchaseStatus env st tr d options =
              series [getSubInfo env url (isSubscriptionOf options), validate env,
                      recheck env url (isSubscriptionOf options)] done_cb ?r"
        using \<open>setProp d ''service'' SERVICES_GOOGLE = Inr d1\<close> True Inr
        by (simp add: checkPurchaseStatus_def)
      then show ?thesis
        using tasks_lookups [of env url "isSubscriptionOf options" done_cb ?r]
              tasks_refreshes [of env url "isSubscriptionOf options" done_cb ?r]
        by simp
    qed
  qed
qed

lemma reconciled_calls:
  assumes "lookups tr = 0" and "refreshes tr = 0"
  shows "lookups (events (reconciled r (checkPurchaseStatus env st tr d options))) \<le> 2"
    and "refreshes (events (reconciled r (checkPurchaseStatus env st tr d options))) \<le> 1"
  using checkPurchaseStatus_calls [of env st tr d options] assms by (simp_all add: reconciled_def)

text \<open>
  C1: whatever the receipt, the key override, the options, the module state and the
  behaviour of the verifier, the parser and the remote endpoints, one call of
  \<open>validatePurchase\<close> performs at most two purchase-status lookups (\<open>getPurchaseInfo\<close>) and
  at most one credential refresh (\<open>refreshGoogleTokens\<close>).
\<close>

theorem validatePurchase_remote_calls_bounded:
  "lookups (events (validatePurchase env st dPubkey receipt options)) \<le> 2
   \<and> refreshes (events (validatePurchase env st dPubkey receipt options)) \<le> 1"
  unfolding validatePurchase_def Let_def
  by (simp add: reconciled_calls reconciled_calls(2) [unfolded One_nat_def] lookups_Cons refreshes_Cons
        split: sum.splits verdict.splits)

text \<open>
  The bound at a run that reaches it: the first lookup reports an invalid token, the refresh
  succeeds, the second lookup succeeds.
\<close>

theorem validatePurchase_remote_calls_bounded_witness:
  "lookups (events (validatePurchase (sample_env True stale_then_fresh) live_with_credentials None
      sample_receipt (JObj [(''subscription'', JBool True)]))) = 2
   \<and> refreshes (events (validatePurchase (sample_env True stale_then_fresh) live_with_credentials None
      sample_receipt (JObj [(''subscription'', JBool True)]))) = 1"
proof -
  have "2 \<le> lookups (events (validatePurchase (sample_env True stale_then_fresh) live_with_credentials
      None sample_receipt (JObj [(''subscription'', JBool True)])))"
    by code_simp
  moreover have "1 \<le> refreshes (events (validatePurchase (sample_env True stale_then_fresh)
      live_with_credentials None sample_receipt (JObj [(''subscription'', JBool True)])))"
    by code_simp
  ultimately show ?thesis
    using validatePurchase_remote_calls_bounded [of "sample_env True stale_then_fresh"
        live_with_credentials None sample_receipt "JObj [(''subscription'', JBool True)]"]
    by simp
qed

section \<open>Properties: live verification and the re-check\<close>

text \<open>
  After a successful first lookup the local \<open>state\<close> is \<open>SUCCESS\<close>. \<open>validate\<close> passes
  the "do not look up again" sentinel as the second argument of \<open>next\<close> and leaves \<open>state\<close>
  alone, and \<open>recheck\<close> reads only \<open>state\<close>: it sends the lookup again.
\<close>

lemma validate_after_success:
  assumes "state r = VALIDATION_SUCCESS"
  shows "validate env r = (Next None (Some VALIDATION_FAILURE), r)"
    and "\<exists>q. trace (snd (recheck env url sub r)) = trace r @ [Lookup q]"
  using assms
  by (auto simp: validate_def recheck_def getPurchaseInfo_def Let_def
      split: reply.splits sum.splits option.splits)

text \<open>
  The reconciler only appends lookups and refreshes to the events, and nothing when the
  credentials are not configured. So when the first attempt verifies, the sandbox key is
  never read, and without credentials there is no lookup.
\<close>

lemma checkPurchaseStatus_trace:
  "\<exists>ext. trace (snd (checkPurchaseStatus env st tr d options)) = tr @ ext
         \<and> (\<forall>ev\<in>set ext. isLookup ev \<or> isRefresh ev)
         \<and> (\<not> checkPurchaseState st \<longrightarrow> ext = [])"
proof (cases "setProp d ''service'' SERVICES_GOOGLE")
  case (Inl e)
  then show ?thesis by (simp add: checkPurchaseStatus_def)
next
  case (Inr d1)
  show ?thesis
  proof (cases "checkPurchaseState st")
    case False
    with Inr show ?thesis by (simp add: checkPurchaseStatus_def)
  next
    case True
    show ?thesis
    proof (cases "purchaseUrl d1 (isSubscriptionOf options)")
      case (Inl e)
      with \<open>setProp d ''service'' SERVICES_GOOGLE = Inr d1\<close> True show ?thesis
        by (simp add: checkPurchaseStatus_def)
    next
      case (Inr url)
      let ?sub = "isSubscriptionOf options"
      let ?r = "\<lparr>data = d1, state = JUndefined, globals = st, trace = tr\<rparr>"
      let ?r1 = "snd (getSubInfo env url ?sub ?r)"
      let ?r2 = "snd (validate env ?r1)"
      let ?r3 = "snd (recheck env url ?sub ?r2)"
      have eq: "checkPurchaseStatus env st tr d options =
              series [getSubInfo env url ?sub, validate env, recheck env url ?sub] done_cb ?r"
        using \<open>setProp d ''service'' SERVICES_GOOGLE = Inr d1\<close> True Inr
        by (simp add: checkPurchaseStatus_def)
      obtain q1 where a: "trace ?r1 = tr @ [Lookup q1]"
        using getSubInfo_trace [of env url ?sub ?r] by auto
      have b: "trace ?r2 = trace ?r1 \<or> (\<exists>q. trace ?r2 = trace ?r1 @ [Refresh q])"
        using validate_trace [of env ?r1] .
      have c: "trace ?r3 = trace ?r2 \<or> (\<exists>q. trace ?r3 = trace ?r2 @ [Lookup q])"
        using recheck_trace [of env url ?sub ?r2] .
      have good: "\<exists>ext. t = tr @ ext \<and> (\<forall>ev\<in>set ext. isLookup ev \<or> isRefresh ev)"
        if "t \<in> {trace ?r1, trace ?r2, trace ?r3}" for t
        using that a b c by (elim insertE disjE exE) auto
      from series3_trace [of "getSubInfo env url ?sub" "validate env" "recheck env url ?sub" done_cb ?r]
      show ?thesis using good True unfolding eq by blast
    qed
  qed
qed

lemma live_verified_skips_sandbox:
  assumes "typeof receipt = ''object''"
    and "missingContent receipt = Inr False"
    and "canonicalize receipt = Inr receipt1"
    and "validatePublicKey env receipt1
           (getPublicKey (if present dPubkey then dPubkey else map_of (publicKeyMap st) ''live''))
         = Verified d"
  shows "KeyRead ''sandbox'' \<notin> set (events (validatePurchase env st dPubkey receipt options))"
    and "\<not> checkPurchaseState st \<Longrightarrow>
         lookups (events (validatePurchase env st dPubkey receipt options)) = 0"
proof -
  let ?tr = "[KeyRead ''live'',
              Verify (getPublicKey (if present dPubkey then dPubkey else map_of (publicKeyMap st) ''live''))]"
  have ev: "events (validatePurchase env st dPubkey receipt options)
          = trace (snd (checkPurchaseStatus env st ?tr d options))"
    using assms unfolding validatePurchase_def Let_def by (simp add: reconciled_def)
  obtain ext where ext: "trace (snd (checkPurchaseStatus env st ?tr d options)) = ?tr @ ext"
      "\<forall>ev\<in>set ext. isLookup ev \<or> isRefresh ev" "\<not> checkPurchaseState st \<longrightarrow> ext = []"
    using checkPurchaseStatus_trace [of env st ?tr d options] by blast
  show "KeyRead ''sandbox'' \<notin> set (events (validatePurchase env st dPubkey receipt options))"
    using ext(1,2) unfolding ev by auto
  show "lookups (events (validatePurchase env st dPubkey receipt options)) = 0"
    if "\<not> checkPurchaseState st"
    using ext(1,3) that unfolding ev by (simp add: lookups_Cons)
qed


text \<open>Whenever the first lookup succeeds, the series sends a second one.\<close>

lemma successful_lookup_is_repeated:
  assumes "fst (getSubInfo env url sub r) = Next None res"
    and "state (snd (getSubInfo env url sub r)) = VALIDATION_SUCCESS"
  shows "lookups (trace (snd (series [getSubInfo env url sub, validate env, recheck env url sub]
           finish r))) = lookups (trace r) + 2"
proof -
  let ?r1 = "snd (getSubInfo env url sub r)"
  let ?r3 = "snd (recheck env url sub ?r1)"
  have v: "validate env ?r1 = (Next None (Some VALIDATION_FAILURE), ?r1)"
    using validate_after_success(1) [OF assms(2)] .
  obtain q1 where a: "trace ?r1 = trace r @ [Lookup q1]"
    using getSubInfo_trace [of env url sub r] by auto
  obtain q2 where c: "trace ?r3 = trace ?r1 @ [Lookup q2]"
    using validate_after_success(2) [OF assms(2), of env url sub] by auto
  have "trace (snd (series [getSubInfo env url sub, validate env, recheck env url sub] finish r))
          = trace ?r3"
    using assms(1) v
    by (simp add: series_step del: series.simps(2) split: signal.splits option.splits)
  then show ?thesis using a c by (simp add: lookups_Cons)
qed

text \<open>
  C2, at a receipt whose signature verifies against the live key, with the credentials
  configured and both lookups answered successfully: the sandbox key is not read, but the
  call performs two lookups, not one.
\<close>

theorem recheck_repeats_successful_lookup:
  "validatePublicKey (sample_env True both_ok) sample_receipt
      (getPublicKey (map_of (publicKeyMap live_with_credentials) ''live''))
     = Verified (JObj [(''status'', VALIDATION_SUCCESS)])
   \<and> checkPurchaseState live_with_credentials
   \<and> KeyRead ''sandbox'' \<notin> set (events (validatePurchase (sample_env True both_ok)
        live_with_credentials None sample_receipt JUndefined))
   \<and> lookups (events (validatePurchase (sample_env True both_ok) live_with_credentials None
        sample_receipt JUndefined)) = 2
   \<and> outcome (validatePurchase (sample_env True both_ok) live_with_credentials None
        sample_receipt JUndefined)
      = Called None (JObj [(''status'', VALIDATION_SUCCESS), (''service'', SERVICES_GOOGLE)])"
  by code_simp

section \<open>Properties: the error of the first attempt\<close>

text \<open>
  C3: when the receipt reaches verification and the first attempt (against the override if
  one is supplied, else against the live anchor) fails with \<open>error\<close>, then
  \<open>validatePurchase\<close> reports exactly \<open>error\<close>, both when no sandbox anchor is configured and
  when one is configured and the sandbox attempt fails with some \<open>error2\<close>.
\<close>

theorem first_attempt_error_is_reported:
  assumes "typeof receipt = ''object''"
    and "missingContent receipt = Inr False"
    and "canonicalize receipt = Inr receipt1"
    and "validatePublicKey env receipt1
           (getPublicKey (if present dPubkey then dPubkey else map_of (publicKeyMap st) ''live''))
         = Failed error"
    and "present (map_of (publicKeyMap st) ''sandbox'') \<Longrightarrow>
         validatePublicKey env receipt1 (getPublicKey (map_of (publicKeyMap st) ''sandbox''))
         = Failed error2"
  shows "outcome (validatePurchase env st dPubkey receipt options)
         = Called (Some error) (failure (JStr (message error)))"
  using assms unfolding validatePurchase_def Let_def by simp

text \<open>
  With only a sandbox anchor configured, the first attempt fails for want of a key and the
  sandbox attempt fails on the signature: the caller sees the first error.
\<close>

theorem first_attempt_error_is_reported_witness:
  "validatePublicKey (sample_env False []) sample_receipt (getPublicKey None)
     = Failed (Error ''missing public key'')
   \<and> validatePublicKey (sample_env False []) sample_receipt (getPublicKey (Some ''SANDBOXKEY''))
     = Failed (Error ''failed to validate purchase'')
   \<and> outcome (validatePurchase (sample_env False []) sandbox_only None sample_receipt JUndefined)
     = Called (Some (Error ''missing public key'')) (failure (JStr ''missing public key''))"
proof -
  have live: "map_of (publicKeyMap sandbox_only) ''live'' = None" by code_simp
  have sandbox: "map_of (publicKeyMap sandbox_only) ''sandbox'' = Some ''SANDBOXKEY''" by code_simp
  have h1: "typeof sample_receipt = ''object''" by code_simp
  have h2: "missingContent sample_receipt = Inr False" by code_simp
  have h3: "canonicalize sample_receipt = Inr sample_receipt" by code_simp
  have h4: "validatePublicKey (sample_env False []) sample_receipt
           (getPublicKey (if present None then None else map_of (publicKeyMap sandbox_only) ''live''))
         = Failed (Error ''missing public key'')" by code_simp
  have h5: "validatePublicKey (sample_env False []) sample_receipt
           (getPublicKey (map_of (publicKeyMap sandbox_only) ''sandbox''))
         = Failed (Error ''failed to validate purchase'')" by code_simp
  show ?thesis
    using first_attempt_error_is_reported [OF h1 h2 h3 h4 h5, of JUndefined] h4 h5
    by (simp add: live sandbox present_def)
qed

section \<open>Properties: a failing credential refresh\<close>

text \<open>
  When the refresh answers with a transport error, or with a body whose \<open>error\<close> field
  yields a message, \<open>validate\<close> invokes the callback itself and never calls \<open>next\<close>, so the
  series ends before \<open>recheck\<close>.
\<close>

lemma validate_refresh_error:
  assumes "state r = VALIDATION_FAILURE"
    and "refreshGoogleTokens env (globals r) (trace r) = (Reply error body, tr)"
    and "error = Some e \<and> out = Called (Some e) (failure (JStr (message e)))
         \<or> error = None \<and> JSON_parse env (toString body) = Inr parsedBody
            \<and> hasProp ''error'' parsedBody = Inr True \<and> bodyErrorMsg parsedBody = Inr msg
            \<and> out = Called (Some (newError msg)) (failure msg)"
  shows "validate env r = (Exit out, r\<lparr>trace := tr\<rparr>)"
  using assms by (auto simp: validate_def VALIDATION_SUCCESS_def VALIDATION_FAILURE_def)

text \<open>
  C4, at a token-endpoint body \<open>{"error":null}\<close> after a failed first lookup: the body has an
  \<open>error\<close> field, and reading \<open>parsedBody.error.message\<close> raises a TypeError inside the
  request callback; the callback of \<open>validatePurchase\<close> is not invoked. With the body
  \<open>{"error":"invalid_grant"}\<close> the call ends as the claim says.
\<close>

theorem refresh_error_null_is_uncaught:
  "JSON_parse (sample_env True refresh_error_null) (toString (json_text (JObj [(''error'', JNull)])))
     = Inr (JObj [(''error'', JNull)])
   \<and> outcome (validatePurchase (sample_env True refresh_error_null) live_with_credentials None
        sample_receipt JUndefined)
     = Uncaught (TypeError ''Cannot read property message of null'')
   \<and> outcome (validatePurchase (sample_env True refresh_invalid_grant) live_with_credentials None
        sample_receipt JUndefined)
     = Called (Some (Error ''invalid_grant'')) (failure (JStr ''invalid_grant''))"
  by code_simp

section \<open>Properties: exceptions inside request callbacks\<close>

text \<open>
  C7, at a token endpoint that answers \<open>refreshToken\<close> with a text that is not JSON, and at
  a re-check that ends in a transport error without a body: \<open>JSON.parse\<close> and
  \<open>body.error.message\<close> raise inside the request callback, and no callback is invoked.
\<close>

theorem exceptions_inside_request_callbacks:
  "fst (refreshToken (sample_env True not_json) live_with_credentials)
     = Uncaught (SyntaxError ''Unexpected token'')
   \<and> outcome (validatePurchase (sample_env True recheck_timeout) live_with_credentials None
        sample_receipt JUndefined)
     = Uncaught (TypeError ''Cannot read property error of undefined'')"
  by code_simp

section \<open>Properties: the reconciler without credentials\<close>

lemma setProp_defined:
  "setProp v k x = Inr v' \<Longrightarrow> v' \<noteq> JUndefined \<and> v' \<noteq> JNull"
  by (cases v) auto

lemma setProp_total:
  "v \<noteq> JUndefined \<Longrightarrow> v \<noteq> JNull \<Longrightarrow> \<exists>v'. setProp v k x = Inr v'"
  by (cases v) auto

lemma setProp_other:
  "setProp v k x = Inr v' \<Longrightarrow> j \<noteq> k \<Longrightarrow> getProp v' j = getProp v j"
  by (cases v) (auto simp: update_conv')

lemma Verified_defined:
  "validatePublicKey env receipt pkey = Verified d \<Longrightarrow> d \<noteq> JUndefined \<and> d \<noteq> JNull"
  by (auto simp: validatePublicKey_def bindE_def split: if_splits sum.splits dest: setProp_defined)

text \<open>
  C5 as stated fails: the payload that comes back has the property \<open>service\<close>, which the
  verified payload did not have.
\<close>

theorem passthrough_changes_payload:
  "validatePublicKey (sample_env True []) sample_receipt (getPublicKey (Some ''LIVEKEY''))
     = Verified (JObj [(''status'', VALIDATION_SUCCESS)])
   \<and> \<not> checkPurchaseState live_only
   \<and> fst (checkPurchaseStatus (sample_env True []) live_only [] (JObj [(''status'', VALIDATION_SUCCESS)])
        JUndefined)
     \<noteq> Called None (JObj [(''status'', VALIDATION_SUCCESS)])"
  by code_simp

text \<open>
  C5 as amended: for every verified payload, when \<open>checkPurchaseState\<close> is false the
  reconciler invokes the callback with a null error and the payload after the assignment
  \<open>data.service = constants.SERVICES.GOOGLE\<close>. On a payload that is an object or an array
  the assignment sets the property \<open>service\<close> and leaves every other property as before; on
  a payload that is a primitive value the assignment is ignored and the payload comes back
  as it is. No remote call is made (the events are unchanged) and the module state is
  unchanged.
\<close>

theorem passthrough_sets_service:
  assumes "\<not> checkPurchaseState st"
    and "validatePublicKey env receipt pkey = Verified d"
  shows "\<exists>d'. setProp d ''service'' SERVICES_GOOGLE = Inr d'
           \<and> checkPurchaseStatus env st tr d options
               = (Called None d', \<lparr>data = d', state = JUndefined, globals = st, trace = tr\<rparr>)
           \<and> getProp d' ''service''
               = (if typeof d = ''object'' then Inr SERVICES_GOOGLE else Inr JUndefined)
           \<and> (typeof d \<noteq> ''object'' \<longrightarrow> d' = d)
           \<and> (\<forall>k. k \<noteq> ''service'' \<longrightarrow> getProp d' k = getProp d k)"
proof -
  from assms(2) have "d \<noteq> JUndefined" "d \<noteq> JNull" by (auto dest: Verified_defined)
  then obtain d' where d': "setProp d ''service'' SERVICES_GOOGLE = Inr d'"
    using setProp_total by blast
  have "checkPurchaseStatus env st tr d options
          = (Called None d', \<lparr>data = d', state = JUndefined, globals = st, trace = tr\<rparr>)"
    using assms(1) d' by (simp add: checkPurchaseStatus_def)
  moreover have "\<forall>k. k \<noteq> ''service'' \<longrightarrow> getProp d' k = getProp d k"
    using d' by (auto dest: setProp_other)
  moreover have "getProp d' ''service''
                   = (if typeof d = ''object'' then Inr SERVICES_GOOGLE else Inr JUndefined)"
    using d' \<open>d \<noteq> JUndefined\<close> \<open>d \<noteq> JNull\<close> by (cases d) (auto simp: update_conv')
  moreover have "typeof d \<noteq> ''object'' \<longrightarrow> d' = d"
    using d' by (cases d) auto
  ultimately show ?thesis using d' by blast
qed

text \<open>
  An object payload comes back with \<open>service\<close> added; the number payload of a receipt
  whose data is \<open>1\<close> comes back as the number.
\<close>

theorem passthrough_sets_service_witness:
  "checkPurchaseStatus (sample_env True []) live_only [] (JObj [(''status'', VALIDATION_SUCCESS)]) JUndefined
     = (Called None (JObj [(''status'', VALIDATION_SUCCESS), (''service'', SERVICES_GOOGLE)]),
        \<lparr>data = JObj [(''status'', VALIDATION_SUCCESS), (''service'', SERVICES_GOOGLE)],
         state = JUndefined, globals = live_only, trace = []\<rparr>)
   \<and> validatePublicKey (sample_env True []) number_receipt (getPublicKey (Some ''LIVEKEY''))
     = Verified (JNum 1)
   \<and> checkPurchaseStatus (sample_env True []) live_only [] (JNum 1) JUndefined
     = (Called None (JNum 1),
        \<lparr>data = JNum 1, state = JUndefined, globals = live_only, trace = []\<rparr>)"
proof -
  have h1: "\<not> checkPurchaseState live_only" by code_simp
  have h2: "validatePublicKey (sample_env True []) sample_receipt (getPublicKey (Some ''LIVEKEY''))
     = Verified (JObj [(''status'', VALIDATION_SUCCESS)])" by code_simp
  have h3: "setProp (JObj [(''status'', VALIDATION_SUCCESS)]) ''service'' SERVICES_GOOGLE
     = Inr (JObj [(''status'', VALIDATION_SUCCESS), (''service'', SERVICES_GOOGLE)])" by simp
  have n2: "validatePublicKey (sample_env True []) number_receipt (getPublicKey (Some ''LIVEKEY''))
     = Verified (JNum 1)" by code_simp
  have n3: "typeof (JNum 1) \<noteq> ''object''" by simp
  have obj: "checkPurchaseStatus (sample_env True []) live_only []
       (JObj [(''status'', VALIDATION_SUCCESS)]) JUndefined
     = (Called None (JObj [(''status'', VALIDATION_SUCCESS), (''service'', SERVICES_GOOGLE)]),
        \<lparr>data = JObj [(''status'', VALIDATION_SUCCESS), (''service'', SERVICES_GOOGLE)],
         state = JUndefined, globals = live_only, trace = []\<rparr>)"
    using passthrough_sets_service [OF h1 h2, of "[]" JUndefined] h3 by auto
  have num: "checkPurchaseStatus (sample_env True []) live_only [] (JNum 1) JUndefined
     = (Called None (JNum 1),
        \<lparr>data = JNum 1, state = JUndefined, globals = live_only, trace = []\<rparr>)"
    using passthrough_sets_service [OF h1 n2, of "[]" JUndefined] n3 by auto
  show ?thesis using obj n2 num by simp
qed

section \<open>Properties: setup of the trust anchors\<close>

lemma readConfig_reset_shape:
  "publicKeyMap (readConfig reset cin) = []
   \<and> (config (readConfig reset cin) = None
      \<or> keyPathMap (readConfig reset cin)
          = [(''sandbox'', str_or_undefined (cfg (readConfig reset cin) ''googlePublicKeyPath'') @ sandboxPkey),
             (''live'', str_or_undefined (cfg (readConfig reset cin) ''googlePublicKeyPath'') @ livePkey)])"
  by (cases cin) (simp_all add: readConfig_def reset_def Let_def cfg_def)

lemma setup_anchor:
  assumes pk: "publicKeyMap st = []"
    and kp: "config st = None \<or> keyPathMap st = [(''sandbox'', str_or_undefined (cfg st ''googlePublicKeyPath'') @ sandboxPkey),
             (''live'', str_or_undefined (cfg st ''googlePublicKeyPath'') @ livePkey)]"
    and tag: "tag = ''sandbox'' \<or> tag = ''live''"
  shows "map_of (publicKeyMap (setup_module h st)) tag =
     (if present (cfg st ''googlePublicKeyStrSandbox'') \<or> present (cfg st ''googlePublicKeyStrLive'')
      then (if present (cfg st (strField tag)) then cfg st (strField tag) else None)
      else if config st = None \<or> \<not> present (cfg st ''googlePublicKeyPath'')
      then (if present (process_env h (envVar tag))
            then Some (stripTrailing (\<lambda>c. c = CHR ''s'') (the (process_env h (envVar tag))))
            else None)
      else (case readFile h (the (cfg st ''googlePublicKeyPath'') @ pkeyName tag) of
              None \<Rightarrow> None
            | Some fileData \<Rightarrow> Some (stripTrailing whitespace fileData)))"
proof (cases "present (cfg st ''googlePublicKeyStrSandbox'') \<or> present (cfg st ''googlePublicKeyStrLive'')")
  case True
  then show ?thesis using pk tag
    by (auto simp: setup_module_def Let_def strField_def update_conv' present_def split: option.splits)
next
  case False
  note nostr = False
  show ?thesis
  proof (cases "config st = None \<or> \<not> present (cfg st ''googlePublicKeyPath'')")
    case True
    then show ?thesis using nostr pk tag
      by (auto simp: setup_module_def Let_def envVar_def update_conv' present_def split: option.splits)
  next
    case False
    then have kp': "keyPathMap st = [(''sandbox'', the (cfg st ''googlePublicKeyPath'') @ sandboxPkey),
             (''live'', the (cfg st ''googlePublicKeyPath'') @ livePkey)]"
      using kp by (auto simp: str_or_undefined_def present_def split: option.splits)
    show ?thesis using False nostr pk tag
      by (auto simp: setup_module_def kp' eachSeries_def Let_def pkeyName_def update_conv'
          split: option.splits)
  qed
qed

lemma stripTrailing_split: "\<exists>ws. s = stripTrailing P s @ ws \<and> (\<forall>c\<in>set ws. P c)"
proof -
  have "rev (takeWhile P (rev s) @ dropWhile P (rev s)) = s" by simp
  then have "s = stripTrailing P s @ rev (takeWhile P (rev s))"
    unfolding rev_append by (simp add: stripTrailing_def)
  moreover have "\<forall>c\<in>set (rev (takeWhile P (rev s))). P c"
    by (auto dest: set_takeWhileD)
  ultimately show ?thesis by blast
qed

lemma stripTrailing_last: "stripTrailing P s = [] \<or> \<not> P (last (stripTrailing P s))"
proof (cases "dropWhile P (rev s)")
  case Nil
  then show ?thesis by (simp add: stripTrailing_def)
next
  case (Cons x xs)
  then have "\<not> P x" using hd_dropWhile [of P "rev s"] by auto
  with Cons show ?thesis by (simp add: stripTrailing_def)
qed

lemma stripTrailing_id: "s \<noteq> [] \<Longrightarrow> \<not> P (last s) \<Longrightarrow> stripTrailing P s = s"
  by (cases s rule: rev_cases) (simp_all add: stripTrailing_def)

lemma whitespace_not_s: "whitespace c \<Longrightarrow> c \<noteq> CHR ''s''"
  by (auto simp: whitespace_def)

text \<open>
  C6 as stated fails: with only the live key configured as a string, the specification's
  per-environment precedence would take the sandbox key from the environment variable,
  which is set; \<open>setup\<close> leaves the sandbox anchor without a key.
\<close>

theorem string_config_hides_environment_key:
  "process_env sample_host (envVar ''sandbox'') = Some (''ENVKEYss '' @ [CHR 0x0A])
   \<and> specTrustAnchor sample_host (readConfig reset (Some [(''googlePublicKeyStrLive'', ''LIVEKEY'')]))
        ''sandbox'' = Some (''ENVKEYss '' @ [CHR 0x0A])
   \<and> map_of (publicKeyMap (setup_module sample_host
        (readConfig reset (Some [(''googlePublicKeyStrLive'', ''LIVEKEY'')])))) ''sandbox'' = None"
  by code_simp

text \<open>
  C6 as amended: after \<open>readConfig\<close> on the initial state, \<open>setup\<close> chooses one kind of
  source for both environment tags: the configured strings if either of them is present;
  else the key files if a key path is configured; else the environment variables. Within
  the chosen kind each tag takes its own value if there is one, and no value otherwise: a
  source of a lower kind never supplies a key.
\<close>

theorem setup_resolves_by_source_class:
  assumes st: "st = readConfig reset cin"
    and tag: "tag = ''sandbox'' \<or> tag = ''live''"
  shows "map_of (publicKeyMap (setup_module h st)) tag =
     (if present (cfg st ''googlePublicKeyStrSandbox'') \<or> present (cfg st ''googlePublicKeyStrLive'')
      then (if present (cfg st (strField tag)) then cfg st (strField tag) else None)
      else if present (cfg st ''googlePublicKeyPath'')
      then (case readFile h (the (cfg st ''googlePublicKeyPath'') @ pkeyName tag) of
              None \<Rightarrow> None
            | Some fileData \<Rightarrow> Some (stripTrailing whitespace fileData))
      else (if present (process_env h (envVar tag))
            then Some (stripTrailing (\<lambda>c. c = CHR ''s'') (the (process_env h (envVar tag))))
            else None))"
proof -
  have none: "config st = None \<Longrightarrow> \<not> present (cfg st ''googlePublicKeyPath'')"
    by (simp add: cfg_def present_def)
  show ?thesis
    using setup_anchor [of st tag h] readConfig_reset_shape [of cin] tag none
    unfolding st [symmetric] by (cases "present (cfg st ''googlePublicKeyPath'')") auto
qed

text \<open>
  With a key path configured, the live key comes from its file, and the sandbox tag, whose
  file is missing, gets no key although its environment variable is set.
\<close>

theorem setup_resolves_by_source_class_witness:
  "process_env sample_host (envVar ''sandbox'') = Some (''ENVKEYss '' @ [CHR 0x0A])
   \<and> map_of (publicKeyMap (setup_module sample_host
        (readConfig reset (Some [(''googlePublicKeyPath'', ''/keys/'')])))) ''sandbox'' = None
   \<and> map_of (publicKeyMap (setup_module sample_host
        (readConfig reset (Some [(''googlePublicKeyPath'', ''/keys/'')])))) ''live'' = Some ''FILEKEYss''"
proof -
  let ?st = "readConfig reset (Some [(''googlePublicKeyPath'', ''/keys/'')])"
  have c: "cfg ?st ''googlePublicKeyStrSandbox'' = None" "cfg ?st ''googlePublicKeyStrLive'' = None"
    "cfg ?st ''googlePublicKeyPath'' = Some ''/keys/''"
    by code_simp+
  have f: "readFile sample_host (''/keys/'' @ pkeyName ''sandbox'') = None"
    "readFile sample_host (''/keys/'' @ pkeyName ''live'') = Some (''FILEKEYss '' @ [CHR 0x0A])"
    by code_simp+
  have s: "stripTrailing whitespace (''FILEKEYss '' @ [CHR 0x0A]) = ''FILEKEYss''"
    by code_simp
  have e: "process_env sample_host (envVar ''sandbox'') = Some (''ENVKEYss '' @ [CHR 0x0A])"
    by code_simp
  show ?thesis
    using setup_resolves_by_source_class [OF refl, of "''sandbox''" sample_host "Some [(''googlePublicKeyPath'', ''/keys/'')]"]
      setup_resolves_by_source_class [OF refl, of "''live''" sample_host "Some [(''googlePublicKeyPath'', ''/keys/'')]"]
      c f s e
    by (simp add: present_def)
qed

text \<open>
  C10: when no key string is configured, a key read from a file is the file's content
  without its trailing whitespace (what is cut off is whitespace, and what is left does not
  end in whitespace), and a key taken from an environment variable is the value without its
  trailing run of the letter \<open>s\<close>; so a value that ends in whitespace is kept as it is.
\<close>

theorem key_material_trailing_characters:
  assumes st: "st = readConfig reset cin"
    and tag: "tag = ''sandbox'' \<or> tag = ''live''"
    and nostr: "\<not> present (cfg st ''googlePublicKeyStrSandbox'')"
               "\<not> present (cfg st ''googlePublicKeyStrLive'')"
  shows "(present (cfg st ''googlePublicKeyPath'') \<longrightarrow>
          readFile h (the (cfg st ''googlePublicKeyPath'') @ pkeyName tag) = Some fileData \<longrightarrow>
            (\<exists>key ws. map_of (publicKeyMap (setup_module h st)) tag = Some key
               \<and> fileData = key @ ws \<and> (\<forall>c\<in>set ws. whitespace c)
               \<and> (key = [] \<or> \<not> whitespace (last key))))
       \<and> (\<not> present (cfg st ''googlePublicKeyPath'') \<longrightarrow>
          process_env h (envVar tag) = Some v \<longrightarrow> v \<noteq> [] \<longrightarrow>
            (\<exists>key ss. map_of (publicKeyMap (setup_module h st)) tag = Some key
               \<and> v = key @ ss \<and> (\<forall>c\<in>set ss. c = CHR ''s'')
               \<and> (key = [] \<or> last key \<noteq> CHR ''s'')
               \<and> (whitespace (last v) \<longrightarrow> key = v)))"
proof -
  have none: "config st = None \<Longrightarrow> \<not> present (cfg st ''googlePublicKeyPath'')"
    by (simp add: cfg_def present_def)
  have anchor: "map_of (publicKeyMap (setup_module h st)) tag =
     (if present (cfg st ''googlePublicKeyPath'')
      then (case readFile h (the (cfg st ''googlePublicKeyPath'') @ pkeyName tag) of
              None \<Rightarrow> None
            | Some fileData \<Rightarrow> Some (stripTrailing whitespace fileData))
      else (if present (process_env h (envVar tag))
            then Some (stripTrailing (\<lambda>c. c = CHR ''s'') (the (process_env h (envVar tag))))
            else None))"
    using setup_anchor [of st tag h] readConfig_reset_shape [of cin] tag none nostr
    unfolding st [symmetric] by (cases "present (cfg st ''googlePublicKeyPath'')") auto
  have from_file: "\<exists>key ws. Some (stripTrailing whitespace fileData) = Some key
               \<and> fileData = key @ ws \<and> (\<forall>c\<in>set ws. whitespace c)
               \<and> (key = [] \<or> \<not> whitespace (last key))"
    using stripTrailing_split [of fileData whitespace] stripTrailing_last [of whitespace fileData]
    by blast
  have from_env: "\<exists>key ss. Some (stripTrailing (\<lambda>c. c = CHR ''s'') v) = Some key
               \<and> v = key @ ss \<and> (\<forall>c\<in>set ss. c = CHR ''s'')
               \<and> (key = [] \<or> last key \<noteq> CHR ''s'')
               \<and> (whitespace (last v) \<longrightarrow> key = v)" if "v \<noteq> []"
    using stripTrailing_split [of v "\<lambda>c. c = CHR ''s''"]
      stripTrailing_last [of "\<lambda>c. c = CHR ''s''" v]
      stripTrailing_id [of v "\<lambda>c. c = CHR ''s''"] whitespace_not_s [of "last v"] that
    by auto
  show ?thesis
    using from_file from_env by (simp add: anchor present_def)
qed

text \<open>
  The same content \<open>...ss \n\<close>, from a file and from an environment variable.
\<close>

theorem key_material_trailing_characters_witness:
  "map_of (publicKeyMap (setup_module sample_host
      (readConfig reset (Some [(''googlePublicKeyPath'', ''/keys/'')])))) ''live'' = Some ''FILEKEYss''
   \<and> readFile sample_host ''/keys/iap-live'' = Some (''FILEKEYss '' @ [CHR 0x0A])
   \<and> map_of (publicKeyMap (setup_module sample_host (readConfig reset None))) ''sandbox''
       = Some (''ENVKEYss '' @ [CHR 0x0A])
   \<and> process_env sample_host ENV_PUBLICKEY_SANDBOX = Some (''ENVKEYss '' @ [CHR 0x0A])"
proof -
  let ?st = "readConfig reset (Some [(''googlePublicKeyPath'', ''/keys/'')])"
  have c: "\<not> present (cfg ?st ''googlePublicKeyStrSandbox'')" "\<not> present (cfg ?st ''googlePublicKeyStrLive'')"
    by code_simp+
  have p: "present (cfg ?st ''googlePublicKeyPath'')" by code_simp
  have f: "readFile sample_host (the (cfg ?st ''googlePublicKeyPath'') @ pkeyName ''live'')
             = Some (''FILEKEYss '' @ [CHR 0x0A])"
    by code_simp
  have f': "readFile sample_host ''/keys/iap-live'' = Some (''FILEKEYss '' @ [CHR 0x0A])"
    by code_simp
  from key_material_trailing_characters [OF refl _ c, of "''live''" sample_host
      "''FILEKEYss '' @ [CHR 0x0A]"] p f
  obtain key ws where k: "map_of (publicKeyMap (setup_module sample_host ?st)) ''live'' = Some key"
    "''FILEKEYss '' @ [CHR 0x0A] = key @ ws" "\<forall>c\<in>set ws. whitespace c"
    "key = [] \<or> \<not> whitespace (last key)"
    by auto
  have live: "key = ''FILEKEYss''"
  proof -
    have "stripTrailing whitespace (key @ ws) = key"
      using k(3,4) by (cases key rule: rev_cases) (auto simp: stripTrailing_def dropWhile_append2 dropWhile_append3)
    moreover have "stripTrailing whitespace (''FILEKEYss '' @ [CHR 0x0A]) = ''FILEKEYss''"
      by code_simp
    ultimately show ?thesis using k(2) by simp
  qed
  let ?e = "readConfig reset None"
  have ce: "\<not> present (cfg ?e ''googlePublicKeyStrSandbox'')" "\<not> present (cfg ?e ''googlePublicKeyStrLive'')"
    by code_simp+
  have pe: "\<not> present (cfg ?e ''googlePublicKeyPath'')" by code_simp
  have e: "process_env sample_host (envVar ''sandbox'') = Some (''ENVKEYss '' @ [CHR 0x0A])"
    by code_simp
  have e': "process_env sample_host ENV_PUBLICKEY_SANDBOX = Some (''ENVKEYss '' @ [CHR 0x0A])"
    by code_simp
  have w: "whitespace (last (''ENVKEYss '' @ [CHR 0x0A]))" by code_simp
  from key_material_trailing_characters [OF refl _ ce, of "''sandbox''" sample_host _
      "''ENVKEYss '' @ [CHR 0x0A]"] pe e w
  have sandbox: "map_of (publicKeyMap (setup_module sample_host ?e)) ''sandbox''
       = Some (''ENVKEYss '' @ [CHR 0x0A])"
    by auto
  show ?thesis using k(1) live f' sandbox e' by simp
qed

section \<open>Properties: canonical receipt data\<close>

lemma stringify_object:
  "typeof d = ''object'' \<Longrightarrow> d \<noteq> JNull \<Longrightarrow> \<exists>s. stringify d = Some s \<and> s \<noteq> []"
  by (cases d) auto

lemma escapeSlashes_nonempty: "s \<noteq> [] \<Longrightarrow> escapeSlashes s \<noteq> []"
  by (cases s) (auto simp: escapeSlashes_def)

lemma object_truthy: "typeof d = ''object'' \<Longrightarrow> d \<noteq> JNull \<Longrightarrow> truthy d"
  by (cases d) auto

lemma holder_is_object:
  "getProp r k = Inr d \<Longrightarrow> truthy d \<Longrightarrow> typeof r = ''object'' \<and> r \<noteq> JNull"
  by (cases r) auto

lemma setProp_object:
  assumes "typeof r = ''object''" and "r \<noteq> JNull"
  shows "\<exists>r1. setProp r k x = Inr r1 \<and> getProp r1 k = Inr x \<and> typeof r1 = ''object''
           \<and> (\<forall>j. j \<noteq> k \<longrightarrow> getProp r1 j = getProp r j)"
  using assms by (cases r) (auto simp: update_conv')

lemma receipt_after_verified:
  assumes "typeof receipt = ''object''"
    and "missingContent receipt = Inr False"
    and "canonicalize receipt = Inr r1"
  shows "receipt_after (validatePurchase env st k receipt options) = r1"
  using assms unfolding validatePurchase_def Let_def
  by (simp add: reconciled_def split: verdict.splits)

lemma canonical_receipt:
  assumes d: "getProp receipt ''data'' = Inr d" "typeof d = ''object''" "d \<noteq> JNull"
    and sg: "getProp receipt ''signature'' = Inr sg" "truthy sg"
  shows "\<exists>s r1. stringify d = Some s
           \<and> canonicalData d = Inr (JStr (escapeSlashes s))
           \<and> setProp receipt ''data'' (JStr (escapeSlashes s)) = Inr r1
           \<and> getProp r1 ''data'' = Inr (JStr (escapeSlashes s))
           \<and> receipt_after (validatePurchase env st k receipt options) = r1
           \<and> validatePurchase env st k receipt options = validatePurchase env st k r1 options"
proof -
  have td: "truthy d" using d by (auto intro: object_truthy)
  then have obj: "typeof receipt = ''object''" "receipt \<noteq> JNull"
    using d(1) holder_is_object by blast+
  obtain s where s: "stringify d = Some s" "s \<noteq> []"
    using d stringify_object by blast
  let ?c = "JStr (escapeSlashes s)"
  obtain r1 where r1: "setProp receipt ''data'' ?c = Inr r1" "getProp r1 ''data'' = Inr ?c"
      "typeof r1 = ''object''" "getProp r1 ''signature'' = getProp receipt ''signature''"
    using setProp_object [OF obj, of "''data''" ?c] by auto
  have cd: "canonicalData d = Inr ?c"
    using d s by (simp add: canonicalData_def)
  have m: "missingContent receipt = Inr False"
    using d sg td by (simp add: missingContent_def bindE_def)
  have c: "canonicalize receipt = Inr r1"
    using d cd r1 by (simp add: canonicalize_def bindE_def)
  have tc: "truthy ?c" using s by (simp add: escapeSlashes_nonempty)
  have m1: "missingContent r1 = Inr False"
    using r1 sg tc by (simp add: missingContent_def bindE_def)
  have c1: "canonicalize r1 = Inr r1"
    using r1 by (simp add: canonicalize_def bindE_def)
  have after: "receipt_after (validatePurchase env st k receipt options) = r1"
    using receipt_after_verified [OF obj(1) m c] .
  have same: "validatePurchase env st k receipt options = validatePurchase env st k r1 options"
    unfolding validatePurchase_def using obj(1) r1(3) m m1 c c1 by simp
  show ?thesis using s cd r1 after same by blast
qed

lemma receipt_after_string:
  assumes "getProp receipt ''data'' = Inr (JStr s)"
  shows "receipt_after (validatePurchase env st k receipt options) = receipt"
proof -
  have "canonicalize receipt = Inr receipt"
    using assms by (simp add: canonicalize_def bindE_def)
  then show ?thesis
    unfolding validatePurchase_def Let_def
    by (simp add: reconciled_def split: verdict.splits sum.splits)
qed

text \<open>
  C8 as stated fails: two objects with the same properties in a different order give
  different canonical strings.
\<close>

theorem key_order_changes_canonical_string:
  "set [(''a'', JNum 1), (''b'', JStr ''x/y'')] = set [(''b'', JStr ''x/y''), (''a'', JNum 1)]
   \<and> canonicalData (JObj [(''a'', JNum 1), (''b'', JStr ''x/y'')])
     \<noteq> canonicalData (JObj [(''b'', JStr ''x/y''), (''a'', JNum 1)])"
proof
  show "set [(''a'', JNum 1), (''b'', JStr ''x/y'')] = set [(''b'', JStr ''x/y''), (''a'', JNum 1)]"
    by auto
  show "canonicalData (JObj [(''a'', JNum 1), (''b'', JStr ''x/y'')])
     \<noteq> canonicalData (JObj [(''b'', JStr ''x/y''), (''a'', JNum 1)])"
    by code_simp
qed

text \<open>
  C8 as amended: the canonical string of an object-typed \<open>receipt.data\<close> is determined by
  the object with its properties in their order: two validation calls on receipts with that
  data leave the same string in \<open>receipt.data\<close>, whatever the signatures, the collaborators,
  the module state, the key override and the options; canonicalizing that string again
  changes nothing; and string data is left as it is.
\<close>

theorem canonical_string_fixed_by_ordered_content:
  assumes "typeof d = ''object''" and "d \<noteq> JNull"
    and "getProp r1 ''data'' = Inr d" and "getProp r1 ''signature'' = Inr sg1" and "truthy sg1"
    and "getProp r2 ''data'' = Inr d" and "getProp r2 ''signature'' = Inr sg2" and "truthy sg2"
  shows "\<exists>c. canonicalData d = Inr (JStr c)
           \<and> getProp (receipt_after (validatePurchase env1 st1 k1 r1 o1)) ''data'' = Inr (JStr c)
           \<and> getProp (receipt_after (validatePurchase env2 st2 k2 r2 o2)) ''data'' = Inr (JStr c)
           \<and> canonicalData (JStr c) = Inr (JStr c)
           \<and> (\<forall>s. canonicalData (JStr s) = Inr (JStr s))
           \<and> (\<forall>r s. getProp r ''data'' = Inr (JStr s) \<longrightarrow>
                 receipt_after (validatePurchase env1 st1 k1 r o1) = r)"
proof -
  from canonical_receipt [OF assms(3) assms(1) assms(2) assms(4) assms(5), of env1 st1 k1 o1]
  obtain s where a: "stringify d = Some s" "canonicalData d = Inr (JStr (escapeSlashes s))"
    "getProp (receipt_after (validatePurchase env1 st1 k1 r1 o1)) ''data'' = Inr (JStr (escapeSlashes s))"
    by auto
  from canonical_receipt [OF assms(6) assms(1) assms(2) assms(7) assms(8), of env2 st2 k2 o2] a(1)
  have b: "getProp (receipt_after (validatePurchase env2 st2 k2 r2 o2)) ''data'' = Inr (JStr (escapeSlashes s))"
    by auto
  have c: "\<forall>s. canonicalData (JStr s) = Inr (JStr s)"
    by (simp add: canonicalData_def)
  show ?thesis using a b c receipt_after_string by blast
qed

theorem canonical_string_fixed_by_ordered_content_witness:
  "getProp (receipt_after (validatePurchase (sample_env True []) live_only None payload_receipt JUndefined))
      ''data'' = Inr (JStr payload_text)
   \<and> getProp (receipt_after (validatePurchase (sample_env False stale_then_fresh) live_with_credentials
        (Some ''OTHERKEY'') other_payload_receipt (JObj [(''subscription'', JBool True)])))
      ''data'' = Inr (JStr payload_text)"
proof -
  let ?d = "JObj [(''developerPayload'', JStr ''a/b'')]"
  have h: "typeof ?d = ''object''" "?d \<noteq> JNull" by simp_all
  have r1: "getProp payload_receipt ''data'' = Inr ?d"
    "getProp payload_receipt ''signature'' = Inr (JStr ''c2lnbmF0dXJl'')" "truthy (JStr ''c2lnbmF0dXJl'')"
    by code_simp+
  have r2: "getProp other_payload_receipt ''data'' = Inr ?d"
    "getProp other_payload_receipt ''signature'' = Inr (JStr ''b3RoZXI='')" "truthy (JStr ''b3RoZXI='')"
    by code_simp+
  have c: "canonicalData ?d = Inr (JStr payload_text)" by code_simp
  from canonical_string_fixed_by_ordered_content [OF h r1 r2,
      of "sample_env True []" live_only None JUndefined
         "sample_env False stale_then_fresh" live_with_credentials "Some ''OTHERKEY''"
         "JObj [(''subscription'', JBool True)]"] c
  show ?thesis by auto
qed

text \<open>
  C9 as stated fails: a receipt whose data is an object and whose signature is missing is
  rejected before the assignment, and its data is still the object after the call.
\<close>

theorem unsigned_receipt_keeps_object_data:
  "getProp unsigned_receipt ''data'' = Inr (JObj [(''developerPayload'', JStr ''a/b'')])
   \<and> receipt_after (validatePurchase (sample_env True []) live_only None unsigned_receipt JUndefined)
       = unsigned_receipt"
  by code_simp

text \<open>
  C9 as amended: for every receipt whose data is an object and whose signature is present,
  the caller's receipt has its data overwritten with the canonical string after the call,
  and the call is the call on the overwritten receipt: verification sees the string.
\<close>

theorem object_data_overwritten_when_signed:
  assumes "getProp receipt ''data'' = Inr d" and "typeof d = ''object''" and "d \<noteq> JNull"
    and "getProp receipt ''signature'' = Inr sg" and "truthy sg"
  shows "\<exists>s r1. stringify d = Some s
           \<and> setProp receipt ''data'' (JStr (escapeSlashes s)) = Inr r1
           \<and> receipt_after (validatePurchase env st k receipt options) = r1
           \<and> getProp r1 ''data'' = Inr (JStr (escapeSlashes s))
           \<and> validatePurchase env st k receipt options = validatePurchase env st k r1 options"
  using canonical_receipt [OF assms, of env st k options] by blast

theorem object_data_overwritten_when_signed_witness:
  "receipt_after (validatePurchase (sample_env True []) live_only None payload_receipt JUndefined)
     = JObj [(''data'', JStr payload_text), (''signature'', JStr ''c2lnbmF0dXJl'')]
   \<and> outcome (validatePurchase (sample_env True []) live_only None payload_receipt JUndefined)
     = Called None (JObj [(''developerPayload'', JStr ''a/b''), (''status'', VALIDATION_SUCCESS),
                          (''service'', SERVICES_GOOGLE)])"
proof -
  let ?d = "JObj [(''developerPayload'', JStr ''a/b'')]"
  have h: "getProp payload_receipt ''data'' = Inr ?d" "typeof ?d = ''object''" "?d \<noteq> JNull"
    "getProp payload_receipt ''signature'' = Inr (JStr ''c2lnbmF0dXJl'')" "truthy (JStr ''c2lnbmF0dXJl'')"
    by code_simp+
  have s: "stringify ?d = Some s \<Longrightarrow> escapeSlashes s = payload_text" for s
    by (auto simp: payload_text_def escapeSlashes_def quote_def quoteChar_def)
  have p: "setProp payload_receipt ''data'' (JStr payload_text)
       = Inr (JObj [(''data'', JStr payload_text), (''signature'', JStr ''c2lnbmF0dXJl'')])"
    by (simp add: payload_receipt_def)
  have out: "outcome (validatePurchase (sample_env True []) live_only None
       (JObj [(''data'', JStr payload_text), (''signature'', JStr ''c2lnbmF0dXJl'')]) JUndefined)
     = Called None (JObj [(''developerPayload'', JStr ''a/b''), (''status'', VALIDATION_SUCCESS),
                          (''service'', SERVICES_GOOGLE)])"
    by code_simp
  from object_data_overwritten_when_signed [OF h, of "sample_env True []" live_only None JUndefined]
  show ?thesis using s p out by auto
qed

end
